theory Spec2Isabelle
  imports Complex_Main
begin

section \<open>Values\<close>

text \<open>
  A Python float is a real number; the one float the code tests for, NaN, is the \<open>None\<close> of
  \<open>real option\<close> wherever a pandas cell may hold it. A price is a finite number. The
  arithmetic of the classifier, the oscillator and the portfolio is read as exact. The
  moving average takes the rounding of its arithmetic as a parameter, because its running
  sum makes the rounding visible: \<open>exact\<close> for no rounding, \<open>float64\<close> for the code's
  binary64. The signal generator and the simulators call it with \<open>float64\<close>.

  A value stored in a threshold dictionary is a Python object: \<open>None\<close>, an \<open>int\<close>, a
  \<open>float\<close> or a string. \<open>PStrOffset k\<close> is a string that pandas reads as a fixed time
  offset (\<^verbatim>\<open>"2s"\<close>, \<^verbatim>\<open>"1D"\<close>), \<open>k\<close> being the offset in the unit of the timestamps;
  \<open>PStr\<close> is any other string.
\<close>

datatype pyval = PNone | PInt int | PFloat real | PStr string | PStrOffset int

datatype error = TypeError | NameError | ValueError | KeyError

type_synonym thresholds = "string \<rightharpoonup> pyval"

text \<open>\<^verbatim>\<open>d.get(key, default)\<close>\<close>

definition dict_get :: "thresholds \<Rightarrow> string \<Rightarrow> pyval \<Rightarrow> pyval" where
  "dict_get d k dflt = (case d k of None \<Rightarrow> dflt | Some v \<Rightarrow> v)"

text \<open>The number an arithmetic operand stands for; \<open>None\<close> where \<^verbatim>\<open>1 - x\<close> raises TypeError.\<close>

fun num_of :: "pyval \<Rightarrow> real option" where
  "num_of (PInt i) = Some (real_of_int i)"
| "num_of (PFloat x) = Some x"
| "num_of PNone = None"
| "num_of (PStr s) = None"
| "num_of (PStrOffset k) = None"


text \<open>
  IEEE 754 binary64, round to nearest, ties to even, for magnitudes in the normal range
  (no overflow, no subnormal): the significand has 53 bits, so a number between \<open>2\<^sup>e\<close> and
  \<open>2\<^sup>e\<^sup>+\<^sup>1\<close> is rounded to a multiple of \<open>2\<^sup>e\<^sup>-\<^sup>5\<^sup>2\<close>.
\<close>

definition round_half_even :: "real \<Rightarrow> int" where
  "round_half_even x =
     (let f = \<lfloor>x\<rfloor>; r = x - of_int f
      in if r < 1 / 2 then f else if r > 1 / 2 then f + 1 else if even f then f else f + 1)"

definition float64 :: "real \<Rightarrow> real" where
  "float64 x =
     (if x = 0 then 0
      else let u = 2 powr of_int (\<lfloor>log 2 \<bar>x\<bar>\<rfloor> - 52)
           in of_int (round_half_even (x / u)) * u)"

section \<open>The deviation rule: simple\_strategy\<close>

datatype action = BUY | SELL | HOLD

text \<open>
  \<^verbatim>\<open>
  buy_threshold = thresholds.get("buy", 0.02)
  sell_threshold = thresholds.get("sell", 0.03)
  if current_price < moving_avg * (1 - buy_threshold): return "BUY"
  elif current_price > moving_avg * (1 + sell_threshold): return "SELL"
  else: return "HOLD"
  \<close>
  The sell threshold enters arithmetic only when the first test fails.
\<close>

definition simple_strategy :: "real \<Rightarrow> real \<Rightarrow> thresholds \<Rightarrow> error + action" where
  "simple_strategy current_price moving_avg thresholds =
     (let buy_threshold = dict_get thresholds ''buy'' (PFloat 0.02);
          sell_threshold = dict_get thresholds ''sell'' (PFloat 0.03)
      in case num_of buy_threshold of
           None \<Rightarrow> Inl TypeError
         | Some b \<Rightarrow>
             if current_price < moving_avg * (1 - b) then Inr BUY
             else (case num_of sell_threshold of
                     None \<Rightarrow> Inl TypeError
                   | Some s \<Rightarrow>
                       if current_price > moving_avg * (1 + s) then Inr SELL
                       else Inr HOLD))"

text \<open>The dictionary \<^verbatim>\<open>{"buy": b, "sell": s}\<close>.\<close>

definition buy_sell :: "pyval \<Rightarrow> pyval \<Rightarrow> thresholds" where
  "buy_sell b s = [''buy'' \<mapsto> b, ''sell'' \<mapsto> s]"

section \<open>Indicators (analysis.py)\<close>

text \<open>
  \<^verbatim>\<open>Series.rolling(window).mean()\<close> of pandas: the window indexer gives every row the
  bounds \<open>(start, end)\<close> of its window, and \<^verbatim>\<open>roll_mean\<close> goes through the rows keeping a
  running sum, from which it removes the values that leave the window and to which it adds
  those that enter, both with Kahan compensation.
\<close>

record mean_state =
  nobs :: int
  sum_x :: real
  neg_ct :: int
  compensation_add :: real
  compensation_remove :: real
  num_consecutive_same_value :: int
  prev_value :: real

text \<open>
  \<^verbatim>\<open>
  nobs += 1; y = val - compensation; t = sum_x + y
  compensation = t - sum_x - y; sum_x = t
  if signbit(val): neg_ct += 1
  if val == prev_value: num_consecutive_same_value += 1
  else: num_consecutive_same_value = 1
  prev_value = val
  \<close>
  Every operation on floats is followed by the rounding \<open>rnd\<close>.
\<close>

definition add_mean :: "(real \<Rightarrow> real) \<Rightarrow> real \<Rightarrow> mean_state \<Rightarrow> mean_state" where
  "add_mean rnd val st =
     (let y = rnd (val - compensation_add st);
          t = rnd (sum_x st + y)
      in st\<lparr>nobs := nobs st + 1,
            compensation_add := rnd (rnd (t - sum_x st) - y),
            sum_x := t,
            neg_ct := (if val < 0 then neg_ct st + 1 else neg_ct st),
            num_consecutive_same_value :=
              (if val = prev_value st then num_consecutive_same_value st + 1 else 1),
            prev_value := val\<rparr>)"

text \<open>
  \<^verbatim>\<open>
  nobs -= 1; y = -val - compensation; t = sum_x + y
  compensation = t - sum_x - y; sum_x = t
  if signbit(val): neg_ct -= 1
  \<close>
\<close>

definition remove_mean :: "(real \<Rightarrow> real) \<Rightarrow> real \<Rightarrow> mean_state \<Rightarrow> mean_state" where
  "remove_mean rnd val st =
     (let y = rnd (- val - compensation_remove st);
          t = rnd (sum_x st + y)
      in st\<lparr>nobs := nobs st - 1,
            compensation_remove := rnd (rnd (t - sum_x st) - y),
            sum_x := t,
            neg_ct := (if val < 0 then neg_ct st - 1 else neg_ct st)\<rparr>)"

text \<open>
  \<^verbatim>\<open>
  if nobs >= minp and nobs > 0:
      result = sum_x / nobs
      if num_consecutive_same_value >= nobs: result = prev_value
      elif neg_ct == 0 and result < 0: result = 0
      elif neg_ct == nobs and result > 0: result = 0
  else: result = NaN
  \<close>
\<close>

definition calc_mean :: "(real \<Rightarrow> real) \<Rightarrow> int \<Rightarrow> mean_state \<Rightarrow> real option" where
  "calc_mean rnd minp st =
     (if nobs st \<ge> minp \<and> nobs st > 0
      then let result = rnd (sum_x st / real_of_int (nobs st))
           in Some (if num_consecutive_same_value st \<ge> nobs st then prev_value st
                    else if neg_ct st = 0 \<and> result < 0 then 0
                    else if neg_ct st = nobs st \<and> result > 0 then 0
                    else result)
      else None)"

text \<open>
  The set-up of a window from nothing, and the slide from the window of the row before.
  (The value read at \<open>s\<close> when the window is empty and past the end is never used.)
\<close>

definition window_setup :: "(real \<Rightarrow> real) \<Rightarrow> real list \<Rightarrow> nat \<Rightarrow> nat \<Rightarrow> mean_state" where
  "window_setup rnd values s e =
     fold (add_mean rnd) (map ((!) values) [s..<e])
       \<lparr>nobs = 0, sum_x = 0, neg_ct = 0, compensation_add = 0, compensation_remove = 0,
        num_consecutive_same_value = 0,
        prev_value = (if s < length values then values ! s else 0)\<rparr>"

definition window_slide ::
  "(real \<Rightarrow> real) \<Rightarrow> real list \<Rightarrow> nat \<times> nat \<Rightarrow> nat \<times> nat \<Rightarrow> mean_state \<Rightarrow> mean_state" where
  "window_slide rnd values prev cur st =
     fold (add_mean rnd) (map ((!) values) [snd prev..<snd cur])
       (fold (remove_mean rnd) (map ((!) values) [fst prev..<fst cur]) st)"

text \<open>
  The loop of \<^verbatim>\<open>roll_mean\<close> over the rows that are left: \<open>prev\<close> holds the bounds of the row
  before (none at the first row), \<open>st\<close> the running state, \<open>monotonic\<close> whether the bounds never
  decrease.
  \<^verbatim>\<open>
  if i == 0 or not is_monotonic_increasing_bounds or s >= end[i - 1]: (set up)
  else: (remove values[start[i-1]:s], add values[end[i-1]:e])
  output[i] = calc_mean(...)
  if not is_monotonic_increasing_bounds: nobs = 0; neg_ct = 0; sum_x = 0; compensation_remove = 0
  \<close>
\<close>

fun roll_mean_from ::
  "(real \<Rightarrow> real) \<Rightarrow> real list \<Rightarrow> int \<Rightarrow> bool \<Rightarrow> (nat \<times> nat) option \<Rightarrow> mean_state
     \<Rightarrow> (nat \<times> nat) list \<Rightarrow> real option list" where
  "roll_mean_from rnd values minp monotonic prev st [] = []"
| "roll_mean_from rnd values minp monotonic prev st (cur # bounds) =
     (let st1 = (case prev of
                   None \<Rightarrow> window_setup rnd values (fst cur) (snd cur)
                 | Some p \<Rightarrow>
                     if \<not> monotonic \<or> fst cur \<ge> snd p
                     then window_setup rnd values (fst cur) (snd cur)
                     else window_slide rnd values p cur st);
          st2 = (if monotonic then st1
                 else st1\<lparr>nobs := 0, neg_ct := 0, sum_x := 0, compensation_remove := 0\<rparr>)
      in calc_mean rnd minp st1 # roll_mean_from rnd values minp monotonic (Some cur) st2 bounds)"

definition roll_mean ::
  "(real \<Rightarrow> real) \<Rightarrow> real list \<Rightarrow> (nat \<times> nat) list \<Rightarrow> int \<Rightarrow> real option list" where
  "roll_mean rnd values bounds minp =
     roll_mean_from rnd values minp (sorted (map fst bounds) \<and> sorted (map snd bounds)) None
       (window_setup rnd values 0 0) bounds"

text \<open>
  The bounds of an integer window \<open>w\<close> over \<open>n\<close> rows: row \<open>i\<close> has \<open>end = i + 1\<close> and
  \<open>start = end - w\<close>, clipped at 0. \<^verbatim>\<open>min_periods\<close> defaults to \<open>w\<close>.
\<close>

definition fixed_bound :: "nat \<Rightarrow> nat \<Rightarrow> nat \<times> nat" where
  "fixed_bound w i = (if w \<le> Suc i then Suc i - w else 0, Suc i)"

definition fixed_bounds :: "nat \<Rightarrow> nat \<Rightarrow> (nat \<times> nat) list" where
  "fixed_bounds w n = map (fixed_bound w) [0..<n]"

definition rolling_mean :: "(real \<Rightarrow> real) \<Rightarrow> nat \<Rightarrow> real list \<Rightarrow> real option list" where
  "rolling_mean rnd w xs = roll_mean rnd xs (fixed_bounds w (length xs)) (int w)"

text \<open>
  The running state of \<^verbatim>\<open>roll_mean\<close> after row \<open>i\<close> of an integer window, row by row.
\<close>

fun fixed_state :: "(real \<Rightarrow> real) \<Rightarrow> real list \<Rightarrow> nat \<Rightarrow> nat \<Rightarrow> mean_state" where
  "fixed_state rnd values w 0 =
     window_setup rnd values (fst (fixed_bound w 0)) (snd (fixed_bound w 0))"
| "fixed_state rnd values w (Suc i) =
     (if fst (fixed_bound w (Suc i)) \<ge> snd (fixed_bound w i)
      then window_setup rnd values (fst (fixed_bound w (Suc i))) (snd (fixed_bound w (Suc i)))
      else window_slide rnd values (fixed_bound w i) (fixed_bound w (Suc i))
             (fixed_state rnd values w i))"


text \<open>
  The bounds of a time-offset window over an ascending index, closed on the right: row 0
  has \<open>(0, 1)\<close>; row \<open>i\<close> has \<open>end = i + 1\<close> and as \<open>start\<close> the first row \<open>j\<close>, from the start of
  the row before, with \<open>index[j] > index[i] - offset\<close>, or \<open>i\<close> when there is none.
  \<^verbatim>\<open>min_periods\<close> defaults to 1.
\<close>

definition find_start :: "int list \<Rightarrow> int \<Rightarrow> nat \<Rightarrow> nat \<Rightarrow> nat" where
  "find_start index start_bound prev_start i =
     (case filter (\<lambda>j. index ! j - start_bound > 0) [prev_start..<i] of
        [] \<Rightarrow> i
      | j # js \<Rightarrow> j)"

fun variable_bounds_from :: "int list \<Rightarrow> int \<Rightarrow> nat \<Rightarrow> nat list \<Rightarrow> (nat \<times> nat) list" where
  "variable_bounds_from index offset prev_start [] = []"
| "variable_bounds_from index offset prev_start (i # rows) =
     (let s = find_start index (index ! i - offset) prev_start i
      in (s, Suc i) # variable_bounds_from index offset s rows)"

definition variable_bounds :: "int list \<Rightarrow> int \<Rightarrow> (nat \<times> nat) list" where
  "variable_bounds index offset =
     (if index = [] then []
      else (0, 1) # variable_bounds_from index offset 0 [1..<length index])"

definition rolling_offset ::
  "(real \<Rightarrow> real) \<Rightarrow> int \<Rightarrow> (int \<times> real) list \<Rightarrow> real option list" where
  "rolling_offset rnd offset rows =
     roll_mean rnd (map snd rows) (variable_bounds (map fst rows) offset) 1"

text \<open>
  \<^verbatim>\<open>rolling(window=w)\<close> for an integer: a negative window raises ValueError.
\<close>

definition rolling :: "(real \<Rightarrow> real) \<Rightarrow> int \<Rightarrow> real list \<Rightarrow> error + real option list" where
  "rolling rnd window xs =
     (if window < 0 then Inl ValueError else Inr (rolling_mean rnd (nat window) xs))"

text \<open>
  The columns of the DataFrame that the indicator and signal functions read or write;
  \<open>other_columns\<close> names the rest (Open, High, Low, Volume). Every column that is present
  has \<open>nrows\<close> cells.
\<close>

record dataframe =
  nrows :: nat
  Close :: "real list option"
  SMA :: "real option list option"
  RSI :: "real option list option"
  Signal :: "int list option"
  other_columns :: "string list"

definition wf_frame :: "dataframe \<Rightarrow> bool" where
  "wf_frame d =
     ((case Close d of None \<Rightarrow> True | Some c \<Rightarrow> length c = nrows d) \<and>
      (case SMA d of None \<Rightarrow> True | Some c \<Rightarrow> length c = nrows d) \<and>
      (case RSI d of None \<Rightarrow> True | Some c \<Rightarrow> length c = nrows d) \<and>
      (case Signal d of None \<Rightarrow> True | Some c \<Rightarrow> length c = nrows d))"

text \<open>
  \<^verbatim>\<open>
  def calculate_sma(data, window=20):
      if 'Close' not in data.columns: return pd.Series(dtype=float)
      return data['Close'].rolling(window=window).mean()
  \<close>
\<close>

definition calculate_sma ::
  "(real \<Rightarrow> real) \<Rightarrow> dataframe \<Rightarrow> int \<Rightarrow> error + real option list" where
  "calculate_sma rnd data window =
     (case Close data of None \<Rightarrow> Inr [] | Some c \<Rightarrow> rolling rnd window c)"

text \<open>\<^verbatim>\<open>delta = data['Close'].diff()\<close>: NaN in the first row.\<close>

definition diff :: "real list \<Rightarrow> real option list" where
  "diff xs = map (\<lambda>i. if i = 0 then None else Some (xs ! i - xs ! (i - 1))) [0..<length xs]"

text \<open>
  \<^verbatim>\<open>gain = delta.where(delta > 0, 0)\<close> and \<^verbatim>\<open>loss = -delta.where(delta < 0, 0)\<close>:
  a comparison with NaN is false, so the first row is 0 in both.
\<close>

definition gain :: "real option list \<Rightarrow> real list" where
  "gain delta = map (\<lambda>d. case d of None \<Rightarrow> 0 | Some x \<Rightarrow> if x > 0 then x else 0) delta"

definition loss :: "real option list \<Rightarrow> real list" where
  "loss delta = map (\<lambda>d. - (case d of None \<Rightarrow> 0 | Some x \<Rightarrow> if x < 0 then x else 0)) delta"

text \<open>
  \<^verbatim>\<open>s.ewm(com=c, adjust=False).mean()\<close>: \<open>y\<^sub>0 = x\<^sub>0\<close> and
  \<open>y\<^sub>t = (1 - \<alpha>) y\<^sub>t\<^sub>-\<^sub>1 + \<alpha> x\<^sub>t\<close> with \<open>\<alpha> = 1 / (1 + c)\<close>; \<open>c < 0\<close> raises ValueError.
\<close>

fun ewm_from :: "real \<Rightarrow> real \<Rightarrow> real list \<Rightarrow> real list" where
  "ewm_from \<alpha> y [] = []"
| "ewm_from \<alpha> y (x # xs) = (let y' = (1 - \<alpha>) * y + \<alpha> * x in y' # ewm_from \<alpha> y' xs)"

definition ewm_mean :: "real \<Rightarrow> real list \<Rightarrow> real list" where
  "ewm_mean \<alpha> xs = (case xs of [] \<Rightarrow> [] | x # xs' \<Rightarrow> x # ewm_from \<alpha> x xs')"

definition ewm :: "int \<Rightarrow> real list \<Rightarrow> error + real list" where
  "ewm com xs =
     (if com < 0 then Inl ValueError else Inr (ewm_mean (1 / (1 + real_of_int com)) xs))"

text \<open>
  \<^verbatim>\<open>rs = avg_gain / avg_loss; rsi = 100 - (100 / (1 + rs))\<close> on one row. Float division
  by zero does not raise in pandas: a non-zero gain over a zero loss is infinite, and
  \<open>100 - 100 / (1 + \<infinity>)\<close> is 100; zero over zero is NaN.
\<close>

definition rsi_value :: "real \<Rightarrow> real \<Rightarrow> real option" where
  "rsi_value avg_gain avg_loss =
     (if avg_loss = 0 then (if avg_gain = 0 then None else Some 100)
      else Some (100 - 100 / (1 + avg_gain / avg_loss)))"

text \<open>\<^verbatim>\<open>rsi.fillna(100)\<close>\<close>

definition fillna :: "real \<Rightarrow> real option list \<Rightarrow> real option list" where
  "fillna v s = map (\<lambda>c. case c of None \<Rightarrow> Some v | Some x \<Rightarrow> Some x) s"

text \<open>\<^verbatim>\<open>rsi.iloc[:window] = pd.NA\<close>\<close>

definition iloc_set_na :: "nat \<Rightarrow> real option list \<Rightarrow> real option list" where
  "iloc_set_na k s = map (\<lambda>i. if i < k then None else s ! i) [0..<length s]"

text \<open>The two smoothed series of \<^verbatim>\<open>calculate_rsi\<close>, for a window of at least 1.\<close>

definition avg_gain_of :: "real list \<Rightarrow> int \<Rightarrow> real list" where
  "avg_gain_of c window = ewm_mean (1 / (1 + real_of_int (window - 1))) (gain (diff c))"

definition avg_loss_of :: "real list \<Rightarrow> int \<Rightarrow> real list" where
  "avg_loss_of c window = ewm_mean (1 / (1 + real_of_int (window - 1))) (loss (diff c))"

definition calculate_rsi :: "dataframe \<Rightarrow> int \<Rightarrow> error + real option list" where
  "calculate_rsi data window =
     (case Close data of
        None \<Rightarrow> Inr []
      | Some c \<Rightarrow>
          let delta = diff c in
          (case ewm (window - 1) (gain delta) of
             Inl e \<Rightarrow> Inl e
           | Inr avg_gain \<Rightarrow>
               (case ewm (window - 1) (loss delta) of
                  Inl e \<Rightarrow> Inl e
                | Inr avg_loss \<Rightarrow>
                    let rsi = map (\<lambda>(g, l). rsi_value g l) (zip avg_gain avg_loss)
                    in Inr (iloc_set_na (nat window) (fillna 100 rsi)))))"

section \<open>The cross/threshold rule: generate\_signals (strategies.py)\<close>

text \<open>\<^verbatim>\<open>data.empty\<close>: no row or no column.\<close>

definition empty_frame :: "dataframe \<Rightarrow> bool" where
  "empty_frame d =
     (nrows d = 0 \<or>
      (Close d = None \<and> SMA d = None \<and> RSI d = None \<and> Signal d = None \<and> other_columns d = []))"

text \<open>\<^verbatim>\<open>pd.DataFrame()\<close>\<close>

definition new_frame :: dataframe where
  "new_frame = \<lparr>nrows = 0, Close = None, SMA = None, RSI = None, Signal = None, other_columns = []\<rparr>"

text \<open>
  \<^verbatim>\<open>data[col] = series\<close> aligns the series on the frame's index: a row the series has
  no value for is NaN (the empty series of a frame without Close gives a column of NaN).
\<close>

definition align :: "nat \<Rightarrow> real option list \<Rightarrow> real option list" where
  "align n s = map (\<lambda>i. if i < length s then s ! i else None) [0..<n]"

text \<open>\<^verbatim>\<open>s.isnull().all()\<close>\<close>

definition all_null :: "real option list \<Rightarrow> bool" where
  "all_null s = list_all (\<lambda>c. c = None) s"

text \<open>Element-wise \<open>>\<close> and \<open><\<close> against a cell that may be NaN: false on NaN.\<close>

fun gt_cell :: "real \<Rightarrow> real option \<Rightarrow> bool" where
  "gt_cell x None = False"
| "gt_cell x (Some y) = (x > y)"

fun lt_cell :: "real \<Rightarrow> real option \<Rightarrow> bool" where
  "lt_cell x None = False"
| "lt_cell x (Some y) = (x < y)"

definition buy_condition :: "real \<Rightarrow> real option \<Rightarrow> real option \<Rightarrow> real \<Rightarrow> bool" where
  "buy_condition close sma rsi rsi_oversold =
     (gt_cell close sma \<and> gt_cell rsi_oversold rsi \<and> sma \<noteq> None \<and> rsi \<noteq> None)"

definition sell_condition :: "real \<Rightarrow> real option \<Rightarrow> real option \<Rightarrow> real \<Rightarrow> bool" where
  "sell_condition close sma rsi rsi_overbought =
     (lt_cell close sma \<and> lt_cell rsi_overbought rsi \<and> sma \<noteq> None \<and> rsi \<noteq> None)"

text \<open>
  \<^verbatim>\<open>data['Signal'] = 0; data.loc[buy_condition, 'Signal'] = 1;
  data.loc[sell_condition, 'Signal'] = -1\<close>: the later assignment wins.
\<close>

definition signal_at :: "real \<Rightarrow> real option \<Rightarrow> real option \<Rightarrow> real \<Rightarrow> real \<Rightarrow> int" where
  "signal_at close sma rsi rsi_oversold rsi_overbought =
     (if sell_condition close sma rsi rsi_overbought then - 1
      else if buy_condition close sma rsi rsi_oversold then 1 else 0)"

definition generate_signals ::
  "dataframe \<Rightarrow> int \<Rightarrow> int \<Rightarrow> real \<Rightarrow> real \<Rightarrow> error + dataframe" where
  "generate_signals data sma_window rsi_window rsi_oversold rsi_overbought =
     (if empty_frame data then Inr new_frame
      else
        (case (case SMA data of
                 Some s \<Rightarrow> Inr s
               | None \<Rightarrow> (case calculate_sma float64 data sma_window of
                            Inl e \<Rightarrow> Inl e
                          | Inr s \<Rightarrow> Inr (align (nrows data) s))) of
           Inl e \<Rightarrow> Inl e
         | Inr sma \<Rightarrow>
             (case (case RSI data of
                      Some r \<Rightarrow> Inr r
                    | None \<Rightarrow> (case calculate_rsi data rsi_window of
                                 Inl e \<Rightarrow> Inl e
                               | Inr r \<Rightarrow> Inr (align (nrows data) r))) of
                Inl e \<Rightarrow> Inl e
              | Inr rsi \<Rightarrow>
                  let data1 = data\<lparr>SMA := Some sma, RSI := Some rsi,
                                   Signal := Some (replicate (nrows data) 0)\<rparr>
                  in if all_null sma \<or> all_null rsi then Inr data1
                     else
                       (case Close data of
                          None \<Rightarrow> Inl KeyError
                        | Some close \<Rightarrow>
                            Inr (data1\<lparr>Signal := Some
                              (map (\<lambda>i. signal_at (close ! i) (sma ! i) (rsi ! i)
                                               rsi_oversold rsi_overbought)
                                   [0..<nrows data])\<rparr>)))))"

text \<open>
  What holds of a frame returned with its signals: the three columns are there, one cell per
  row; a row whose moving average or oscillator is NaN has signal 0; every signal is -1, 0
  or 1.
\<close>

definition signals_ok :: "dataframe \<Rightarrow> dataframe \<Rightarrow> bool" where
  "signals_ok data out =
     (\<exists>sma rsi sig. SMA out = Some sma \<and> RSI out = Some rsi \<and> Signal out = Some sig \<and>
        nrows out = nrows data \<and> length sma = nrows out \<and> length rsi = nrows out \<and>
        length sig = nrows out \<and>
        (\<forall>i < nrows out. (sma ! i = None \<or> rsi ! i = None) \<longrightarrow> sig ! i = 0) \<and>
        (\<forall>i < nrows out. sig ! i \<in> {- 1, 0, 1}))"

section \<open>Strategy parameters (the loaders of simulator.py and strategy.py)\<close>

text \<open>
  What the loaders find at the configuration path: no file; a file that cannot be opened
  or parsed, or whose document is not a mapping (every such failure is an exception inside
  the loader's \<^verbatim>\<open>try\<close>); or a YAML document, a mapping from strategy names to sections.
  A section is taken to be a mapping.
\<close>

datatype config_file = Missing | Unloadable | Document "string \<rightharpoonup> thresholds"

text \<open>\<^verbatim>\<open>DEFAULT_THRESHOLDS.get(strategy_name, {})\<close> of simulator.py.\<close>

definition DEFAULT_THRESHOLDS :: "string \<rightharpoonup> thresholds" where
  "DEFAULT_THRESHOLDS = [''simple'' \<mapsto> [''buy'' \<mapsto> PFloat 0.02, ''sell'' \<mapsto> PFloat 0.03]]"

definition section_of :: "(string \<rightharpoonup> thresholds) \<Rightarrow> string \<Rightarrow> thresholds" where
  "section_of config strategy_name =
     (case config strategy_name of None \<Rightarrow> Map.empty | Some sec \<Rightarrow> sec)"

text \<open>A dictionary, or \<^verbatim>\<open>None\<close>, used as a condition: false when \<^verbatim>\<open>None\<close> or empty.\<close>

definition truthy :: "thresholds option \<Rightarrow> bool" where
  "truthy d = (case d of None \<Rightarrow> False | Some t \<Rightarrow> t \<noteq> Map.empty)"

text \<open>
  \<^verbatim>\<open>
  def load_config_for_simulator(file_path, strategy_name, passed_thresholds):
      if passed_thresholds: return passed_thresholds
      if not os.path.exists(file_path):
          return DEFAULT_THRESHOLDS.get(strategy_name, {})
      try:
          with open(file_path, 'r') as f: config = yaml.safe_load(f)
          return config.get(strategy_name, {})
      except Exception as e:
          return DEFAULT_THRESHOLDS.get(strategy_name, {})
  \<close>
\<close>

definition load_config_for_simulator ::
  "config_file \<Rightarrow> string \<Rightarrow> thresholds option \<Rightarrow> thresholds" where
  "load_config_for_simulator file strategy_name passed_thresholds =
     (if truthy passed_thresholds then the passed_thresholds
      else (case file of
              Missing \<Rightarrow> section_of DEFAULT_THRESHOLDS strategy_name
            | Unloadable \<Rightarrow> section_of DEFAULT_THRESHOLDS strategy_name
            | Document config \<Rightarrow> section_of config strategy_name))"

definition DEFAULT_WINDOW_SIZE :: int where
  "DEFAULT_WINDOW_SIZE = 5"

text \<open>\<^verbatim>\<open>default_strategy_defaults\<close> of strategy.py.\<close>

definition default_strategy_defaults :: "string \<rightharpoonup> thresholds" where
  "default_strategy_defaults =
     [''simple'' \<mapsto> [''buy'' \<mapsto> PFloat 0.02, ''sell'' \<mapsto> PFloat 0.03,
                    ''window_size'' \<mapsto> PInt DEFAULT_WINDOW_SIZE]]"

text \<open>
  \<^verbatim>\<open>
  def load_strategy_config_for_sim(file_path, strategy_name, passed_thresholds=None):
      if passed_thresholds and isinstance(passed_thresholds, dict):
          return passed_thresholds
      if not os.path.exists(file_path):
          return default_strategy_defaults.get(strategy_name, {})
      try:
          with open(file_path, 'r') as f: config = yaml.safe_load(f)
          strategy_specific_config = config.get(strategy_name, {})
          combined_config = default_strategy_defaults.get(strategy_name, {}).copy()
          combined_config.update(strategy_specific_config)
          return combined_config
      except Exception as e:
          return default_strategy_defaults.get(strategy_name, {})
  \<close>
  \<^verbatim>\<open>a.update(b)\<close> is \<open>a ++ b\<close>: the keys of \<open>b\<close> win.
\<close>

definition load_strategy_config_for_sim ::
  "config_file \<Rightarrow> string \<Rightarrow> thresholds option \<Rightarrow> thresholds" where
  "load_strategy_config_for_sim file strategy_name passed_thresholds =
     (if truthy passed_thresholds then the passed_thresholds
      else (case file of
              Missing \<Rightarrow> section_of default_strategy_defaults strategy_name
            | Unloadable \<Rightarrow> section_of default_strategy_defaults strategy_name
            | Document config \<Rightarrow>
                section_of default_strategy_defaults strategy_name
                  ++ section_of config strategy_name))"

text \<open>
  The precedence as the specification words it, parameter by parameter: the caller's value,
  else the file's, else the hard-coded default.
\<close>

definition spec_precedence :: "thresholds \<Rightarrow> thresholds \<Rightarrow> thresholds \<Rightarrow> thresholds" where
  "spec_precedence caller file_section defaults = defaults ++ file_section ++ caller"

section \<open>The portfolio simulator\<close>

text \<open>
  The reason strings, by the f-string that builds each and the values it formats (a moving
  average is formatted whether or not it is NaN):
  \<^item> \<open>Initialization\<close>: \<^verbatim>\<open>"Initialization"\<close> (strategy.py);
  \<^item> \<open>InsufficientData\<close>: \<^verbatim>\<open>"Insufficient data for moving average"\<close> (simulator.py);
  \<^item> \<open>InsufficientDataWindow w\<close>: the same followed by \<^verbatim>\<open>(window=w)\<close> (strategy.py);
  \<^item> \<open>NotImplemented name\<close>: \<^verbatim>\<open>"Strategy 'name' not implemented in simulator."\<close>;
  \<^item> \<open>BuyExecuted price ma\<close>, \<open>SellExecuted price ma\<close>: \<^verbatim>\<open>"... BUY executed."\<close>,
    \<^verbatim>\<open>"SELL Executed: ..."\<close>;
  \<^item> \<open>BuyRecommended price ma balance position\<close>: \<^verbatim>\<open>"... BUY recommended, but cannot execute
    (balance=..., position=...)."\<close>, \<^verbatim>\<open>"BUY Recommended, but HOLD: ..."\<close>;
  \<^item> \<open>SellRecommended price ma position\<close>: \<^verbatim>\<open>"... SELL recommended, but cannot execute (no
    position to sell)."\<close>, \<^verbatim>\<open>"SELL Recommended, but HOLD: ... (Pos=...)"\<close>;
  \<^item> \<open>Holding price ma\<close>: \<^verbatim>\<open>"Price=..., MA=.... Holding."\<close>, \<^verbatim>\<open>"HOLD: Price=..., MA=..."\<close>.
\<close>

datatype reason =
    Initialization
  | InsufficientData
  | InsufficientDataWindow pyval
  | NotImplemented string
  | BuyExecuted real "real option"
  | BuyRecommended real "real option" real int
  | SellExecuted real "real option"
  | SellRecommended real "real option" int
  | Holding real "real option"

text \<open>One row of the log (\<^verbatim>\<open>simulation_logs.append({...})\<close>).\<close>

record decision =
  timestamp :: int
  user_id :: string
  symbol :: string
  side :: action
  quantity :: int
  strategy :: string
  reason :: reason
  balance :: real
  position :: int
  portfolio_value :: real

text \<open>
  The row appended at the end of an iteration; the portfolio value is
  \<^verbatim>\<open>balance + (position * current_price)\<close>.
\<close>

definition log_row ::
  "int \<Rightarrow> string \<Rightarrow> real \<Rightarrow> action \<Rightarrow> int \<Rightarrow> reason \<Rightarrow> real \<Rightarrow> int \<Rightarrow> decision" where
  "log_row ts strategy_name current_price act qty rsn bal pos =
     \<lparr>timestamp = ts, user_id = ''demo_user'', symbol = ''AAPL'', side = act,
      quantity = qty, strategy = strategy_name, reason = rsn, balance = bal,
      position = pos, portfolio_value = bal + real_of_int pos * current_price\<rparr>"

text \<open>
  The data source after \<^verbatim>\<open>pd.read_csv\<close> and the column checks: unusable (no file, no
  \<^verbatim>\<open>timestamp\<close> or \<^verbatim>\<open>price\<close> column, a timestamp that does not parse), or the rows
  (timestamp, price) in file order. \<^verbatim>\<open>sort_index\<close> puts them in timestamp order.
\<close>

datatype data_source = Unusable | Prices "(int \<times> real) list"

type_synonym sim_row = "(int \<times> real) \<times> real option"

subsection \<open>simulator.py\<close>

text \<open>
  The body of the loop of \<^verbatim>\<open>run_simulation\<close> in simulator.py, from the balance and
  position before the row to the row logged (which holds the balance and position after).
  A row without a moving average skips the strategy and the decision logic. The reason
  set for an unknown strategy is overwritten by the final \<^verbatim>\<open>else\<close> of the decision logic.
\<close>

definition simulator_step ::
  "string \<Rightarrow> thresholds \<Rightarrow> real \<Rightarrow> int \<Rightarrow> sim_row \<Rightarrow> error + decision" where
  "simulator_step strategy_name current_strategy_thresholds bal pos row =
     (case row of ((ts, current_price), moving_avg) \<Rightarrow>
        (case moving_avg of
           None \<Rightarrow> Inr (log_row ts strategy_name current_price HOLD 0 InsufficientData bal pos)
         | Some ma \<Rightarrow>
             (case (if strategy_name = ''simple''
                    then simple_strategy current_price ma current_strategy_thresholds
                    else Inr HOLD) of
                Inl e \<Rightarrow> Inl e
              | Inr BUY \<Rightarrow>
                  if bal \<ge> current_price * 1 \<and> pos = 0
                  then Inr (log_row ts strategy_name current_price BUY 1
                              (BuyExecuted current_price moving_avg) (bal - current_price * 1) (pos + 1))
                  else Inr (log_row ts strategy_name current_price HOLD 0
                              (BuyRecommended current_price moving_avg bal pos) bal pos)
              | Inr SELL \<Rightarrow>
                  if pos \<ge> 1
                  then Inr (log_row ts strategy_name current_price SELL 1
                              (SellExecuted current_price moving_avg) (bal + current_price * 1) (pos - 1))
                  else Inr (log_row ts strategy_name current_price HOLD 0
                              (SellRecommended current_price moving_avg pos) bal pos)
              | Inr HOLD \<Rightarrow>
                  Inr (log_row ts strategy_name current_price HOLD 0
                         (Holding current_price moving_avg) bal pos))))"

fun simulator_loop ::
  "string \<Rightarrow> thresholds \<Rightarrow> real \<Rightarrow> int \<Rightarrow> sim_row list \<Rightarrow> error + decision list" where
  "simulator_loop n t bal pos [] = Inr []"
| "simulator_loop n t bal pos (r # rs) =
     (case simulator_step n t bal pos r of
        Inl e \<Rightarrow> Inl e
      | Inr d \<Rightarrow>
          (case simulator_loop n t (balance d) (position d) rs of
             Inl e \<Rightarrow> Inl e
           | Inr ds \<Rightarrow> Inr (d # ds)))"

text \<open>
  \<^verbatim>\<open>run_simulation(data_source, strategy_name, thresholds, initial_balance)\<close> of
  simulator.py; \<open>file\<close> is what lies at the configuration path. The whole body is inside
  \<^verbatim>\<open>try\<close>: every exception gives \<^verbatim>\<open>None\<close>. The window of the moving average is 5.
\<close>

definition simulator_thresholds :: "config_file \<Rightarrow> string \<Rightarrow> thresholds option \<Rightarrow> thresholds" where
  "simulator_thresholds file strategy_name thresholds =
     (case thresholds of
        None \<Rightarrow> load_config_for_simulator file strategy_name None
      | Some t \<Rightarrow> t)"

definition simulator_run_simulation ::
  "config_file \<Rightarrow> data_source \<Rightarrow> string \<Rightarrow> thresholds option \<Rightarrow> real \<Rightarrow> decision list option" where
  "simulator_run_simulation file source strategy_name thresholds initial_balance =
     (case source of
        Unusable \<Rightarrow> None
      | Prices rows \<Rightarrow>
          let df_prices = sort_key fst rows;
              current_strategy_thresholds = simulator_thresholds file strategy_name thresholds
          in if current_strategy_thresholds = Map.empty then None
             else
               let moving_avg = rolling_mean float64 5 (map snd df_prices) in
               (case simulator_loop strategy_name current_strategy_thresholds initial_balance 0
                       (zip df_prices moving_avg) of
                  Inl e \<Rightarrow> None
                | Inr simulation_logs \<Rightarrow>
                    if simulation_logs = [] then None else Some simulation_logs))"

subsection \<open>strategy.py\<close>

text \<open>
  The test before the generic HOLD reason: the reason is kept when it contains
  \<^verbatim>\<open>"Recommended"\<close>, \<^verbatim>\<open>"Executed"\<close>, \<^verbatim>\<open>"Insufficient"\<close> or \<^verbatim>\<open>"not implemented"\<close>.
\<close>

fun keeps_reason :: "reason \<Rightarrow> bool" where
  "keeps_reason Initialization = False"
| "keeps_reason (Holding p m) = False"
| "keeps_reason r = True"

text \<open>
  \<^verbatim>\<open>df_prices['price'].rolling(window=window_size)\<close> on a value read from the parameter
  dictionary, over the rows in timestamp order: an integer window; a time offset, which
  the \<^verbatim>\<open>DatetimeIndex\<close> of the simulator accepts; anything else raises ValueError (``window
  must be an integer 0 or greater'', or a string that is no fixed offset).
\<close>

fun rolling_pyval :: "pyval \<Rightarrow> (int \<times> real) list \<Rightarrow> error + real option list" where
  "rolling_pyval (PInt w) rows = rolling float64 w (map snd rows)"
| "rolling_pyval (PStrOffset k) rows = Inr (rolling_offset float64 k rows)"
| "rolling_pyval v rows = Inl ValueError"

text \<open>
  The body of the loop of \<^verbatim>\<open>run_simulation\<close> in strategy.py. The strategy is called with
  \<^verbatim>\<open>{"buy": params.get("buy"), "sell": params.get("sell")}\<close>, so a missing parameter
  reaches it as \<^verbatim>\<open>None\<close>. The BUY branch reads \<^verbatim>\<open>quantity_to_buy_buy\<close>, a name that is
  never assigned: NameError, which nothing catches.
\<close>

definition strategy_step ::
  "string \<Rightarrow> thresholds \<Rightarrow> pyval \<Rightarrow> real \<Rightarrow> int \<Rightarrow> sim_row \<Rightarrow> error + decision" where
  "strategy_step strategy_name current_strategy_thresholds window_size bal pos row =
     (case row of ((ts, current_price), moving_avg) \<Rightarrow>
        (case (case moving_avg of
                 None \<Rightarrow>
                   if strategy_name = ''simple''
                   then Inr (HOLD, InsufficientDataWindow window_size)
                   else Inr (HOLD, NotImplemented strategy_name)
               | Some ma \<Rightarrow>
                   if strategy_name = ''simple''
                   then (case simple_strategy current_price ma
                                (buy_sell (dict_get current_strategy_thresholds ''buy'' PNone)
                                          (dict_get current_strategy_thresholds ''sell'' PNone)) of
                           Inl e \<Rightarrow> Inl e
                         | Inr a \<Rightarrow> Inr (a, Initialization))
                   else Inr (HOLD, NotImplemented strategy_name)) of
           Inl e \<Rightarrow> Inl e
         | Inr (BUY, rsn) \<Rightarrow> Inl NameError
         | Inr (SELL, rsn) \<Rightarrow>
             if pos \<ge> 1
             then Inr (log_row ts strategy_name current_price SELL 1
                         (SellExecuted current_price moving_avg) (bal + current_price * 1) (pos - 1))
             else Inr (log_row ts strategy_name current_price HOLD 0
                         (SellRecommended current_price moving_avg pos) bal pos)
         | Inr (HOLD, rsn) \<Rightarrow>
             Inr (log_row ts strategy_name current_price HOLD 0
                    (if keeps_reason rsn then rsn else Holding current_price moving_avg)
                    bal pos)))"

fun strategy_loop ::
  "string \<Rightarrow> thresholds \<Rightarrow> pyval \<Rightarrow> real \<Rightarrow> int \<Rightarrow> sim_row list \<Rightarrow> error + decision list" where
  "strategy_loop n t w bal pos [] = Inr []"
| "strategy_loop n t w bal pos (r # rs) =
     (case strategy_step n t w bal pos r of
        Inl e \<Rightarrow> Inl e
      | Inr d \<Rightarrow>
          (case strategy_loop n t w (balance d) (position d) rs of
             Inl e \<Rightarrow> Inl e
           | Inr ds \<Rightarrow> Inr (d # ds)))"

text \<open>
  \<^verbatim>\<open>run_simulation(data_source, strategy_name, strategy_params, initial_balance)\<close> of
  strategy.py. Only the loading of the data is inside \<^verbatim>\<open>try\<close>; an exception raised
  later leaves the function (\<open>Inl\<close>).
\<close>

definition strategy_run_simulation ::
  "config_file \<Rightarrow> data_source \<Rightarrow> string \<Rightarrow> thresholds option \<Rightarrow> real
     \<Rightarrow> error + decision list option" where
  "strategy_run_simulation file source strategy_name strategy_params initial_balance =
     (case source of
        Unusable \<Rightarrow> Inr None
      | Prices rows \<Rightarrow>
          let df_prices = sort_key fst rows;
              current_strategy_thresholds =
                load_strategy_config_for_sim file strategy_name strategy_params
          in if current_strategy_thresholds = Map.empty then Inr None
             else
               let window_size =
                     dict_get current_strategy_thresholds ''window_size'' (PInt DEFAULT_WINDOW_SIZE)
               in (case rolling_pyval window_size df_prices of
                     Inl e \<Rightarrow> Inl e
                   | Inr moving_avg \<Rightarrow>
                       (case strategy_loop strategy_name current_strategy_thresholds window_size
                               initial_balance 0 (zip df_prices moving_avg) of
                          Inl e \<Rightarrow> Inl e
                        | Inr simulation_logs \<Rightarrow>
                            if simulation_logs = [] then Inr None
                            else Inr (Some simulation_logs))))"

subsection \<open>The constraints on a trade\<close>

text \<open>
  What one logged row must satisfy, given the balance and position before it and the price
  of its timestamp: the position is 0 or 1; a row logged as BUY had the balance for the
  price and no position, paid the price and holds one unit, with a balance that is not
  negative; a row logged as SELL had a position, received the price and gave one unit up;
  a row logged as HOLD left balance and position as they were.
\<close>

definition step_ok :: "real \<Rightarrow> int \<Rightarrow> real \<Rightarrow> decision \<Rightarrow> bool" where
  "step_ok bal pos price d =
     ((position d = 0 \<or> position d = 1) \<and>
      (side d = BUY \<longrightarrow>
         bal \<ge> price \<and> pos = 0 \<and> balance d = bal - price \<and> position d = 1 \<and> 0 \<le> balance d) \<and>
      (side d = SELL \<longrightarrow> pos \<ge> 1 \<and> balance d = bal + price \<and> position d = pos - 1) \<and>
      (side d = HOLD \<longrightarrow> balance d = bal \<and> position d = pos))"

text \<open>
  A log against the prices in timestamp order: one row per price, each row satisfying
  \<open>step_ok\<close> from the balance and position the row before it logged (the initial ones for
  the first row).
\<close>

fun trace_ok :: "real \<Rightarrow> int \<Rightarrow> real list \<Rightarrow> decision list \<Rightarrow> bool" where
  "trace_ok bal pos [] [] = True"
| "trace_ok bal pos (p # ps) (d # ds) =
     (step_ok bal pos p d \<and> trace_ok (balance d) (position d) ps ds)"
| "trace_ok bal pos [] (d # ds) = False"
| "trace_ok bal pos (p # ps) [] = False"

subsection \<open>Inputs and outcomes named in the properties\<close>

text \<open>
  The price series of the specification's scenario, at timestamps 0 to 5.
\<close>

definition scenario :: "(int \<times> real) list" where
  "scenario = [(0, 100), (1, 98), (2, 96), (3, 94), (4, 92), (5, 150)]"

text \<open>
  A logged row that records no trade from the initial state: HOLD, quantity 0, the initial
  balance, no position, and so a portfolio worth the initial balance.
\<close>

definition untouched :: "string \<Rightarrow> real \<Rightarrow> decision \<Rightarrow> bool" where
  "untouched n init d =
     (side d = HOLD \<and> quantity d = 0 \<and> strategy d = n \<and> balance d = init \<and>
      position d = 0 \<and> portfolio_value d = init)"

section \<open>Properties of the deviation rule\<close>

text \<open>
  C2. For numeric thresholds \<open>b\<close> and \<open>s\<close> the rule returns exactly one of BUY, SELL, HOLD:
  BUY iff \<open>price < ma (1 - b)\<close>; SELL iff \<open>price > ma (1 + s)\<close> and the BUY test failed
  (the BUY test comes first); HOLD iff both tests fail. When \<open>ma (b + s) \<ge> 0\<close>, as with a
  positive moving average and positive fractions, the bands do not overlap and SELL iff
  \<open>price > ma (1 + s)\<close>. The result depends on the three arguments only.
\<close>

theorem simple_strategy_bands:
  assumes "num_of (dict_get t ''buy'' (PFloat 0.02)) = Some b"
      and "num_of (dict_get t ''sell'' (PFloat 0.03)) = Some s"
  shows "(simple_strategy p m t = Inr BUY \<longleftrightarrow> p < m * (1 - b)) \<and>
         (simple_strategy p m t = Inr SELL \<longleftrightarrow> p > m * (1 + s) \<and> \<not> p < m * (1 - b)) \<and>
         (simple_strategy p m t = Inr HOLD \<longleftrightarrow> \<not> p < m * (1 - b) \<and> \<not> p > m * (1 + s)) \<and>
         (simple_strategy p m t \<in> {Inr BUY, Inr SELL, Inr HOLD}) \<and>
         (0 \<le> m * (b + s) \<longrightarrow> (simple_strategy p m t = Inr SELL \<longleftrightarrow> p > m * (1 + s)))"
proof -
  have eq: "simple_strategy p m t =
      Inr (if p < m * (1 - b) then BUY else if p > m * (1 + s) then SELL else HOLD)"
    using assms by (simp add: simple_strategy_def)
  have disj: "0 \<le> m * (b + s) \<Longrightarrow> p > m * (1 + s) \<Longrightarrow> \<not> p < m * (1 - b)"
  proof -
    assume a: "0 \<le> m * (b + s)" and h: "p > m * (1 + s)"
    have "m * (1 + s) - m * (1 - b) = m * (b + s)" by (simp add: algebra_simps)
    with a have "m * (1 - b) \<le> m * (1 + s)" by linarith
    with h show ?thesis by linarith
  qed
  show ?thesis using disj by (auto simp: eq)
qed

theorem simple_strategy_bands_witness:
  "simple_strategy 92 96 (buy_sell (PFloat 0.02) (PFloat 0.03)) = Inr BUY \<and>
   simple_strategy 150 106 (buy_sell (PFloat 0.02) (PFloat 0.03)) = Inr SELL \<and>
   simple_strategy 100 100 (buy_sell (PFloat 0.02) (PFloat 0.03)) = Inr HOLD"
proof -
  have b: "num_of (dict_get (buy_sell (PFloat 0.02) (PFloat 0.03)) ''buy'' (PFloat 0.02)) = Some 0.02"
    by (simp add: buy_sell_def dict_get_def)
  have s: "num_of (dict_get (buy_sell (PFloat 0.02) (PFloat 0.03)) ''sell'' (PFloat 0.03)) = Some 0.03"
    by (simp add: buy_sell_def dict_get_def)
  show ?thesis
    using simple_strategy_bands [OF b s, of 92 96] simple_strategy_bands [OF b s, of 150 106]
      simple_strategy_bands [OF b s, of 100 100]
    by simp
qed

text \<open>
  With a negative moving average (or negative fractions) the bands overlap: at price -100,
  moving average -100 and the default fractions the price is above the sell band
  (\<open>-100 > -103\<close>) and the answer is BUY (\<open>-100 < -98\<close>).
\<close>

theorem simple_strategy_sell_iff_counterexample:
  "simple_strategy (- 100) (- 100) (buy_sell (PFloat 0.02) (PFloat 0.03)) = Inr BUY \<and>
   (- 100 :: real) > (- 100) * (1 + 0.03)"
  by (simp add: simple_strategy_def buy_sell_def dict_get_def)

text \<open>
  C10. A missing \<^verbatim>\<open>"buy"\<close> key acts as 0.02 and a missing \<^verbatim>\<open>"sell"\<close> key as 0.03; with
  both missing (the empty dictionary among them), or one missing and the other a number,
  the rule returns an action and does not raise.
\<close>

theorem simple_strategy_missing_keys:
  "(t ''buy'' = None \<longrightarrow>
      simple_strategy p m t = simple_strategy p m (t(''buy'' \<mapsto> PFloat 0.02))) \<and>
   (t ''sell'' = None \<longrightarrow>
      simple_strategy p m t = simple_strategy p m (t(''sell'' \<mapsto> PFloat 0.03))) \<and>
   (t ''buy'' = None \<and> t ''sell'' = None \<longrightarrow>
      simple_strategy p m t =
        Inr (if p < m * (1 - 0.02) then BUY else if p > m * (1 + 0.03) then SELL else HOLD)) \<and>
   (t ''buy'' = None \<and> t ''sell'' = Some v \<and> num_of v = Some s \<longrightarrow>
      simple_strategy p m t =
        Inr (if p < m * (1 - 0.02) then BUY else if p > m * (1 + s) then SELL else HOLD)) \<and>
   (t ''buy'' = Some u \<and> num_of u = Some b \<and> t ''sell'' = None \<longrightarrow>
      simple_strategy p m t =
        Inr (if p < m * (1 - b) then BUY else if p > m * (1 + 0.03) then SELL else HOLD))"
  by (simp add: simple_strategy_def dict_get_def)

theorem simple_strategy_missing_keys_witness:
  "simple_strategy 92 96 Map.empty = Inr BUY \<and>
   simple_strategy 150 106 [''buy'' \<mapsto> PFloat 0.5] = Inr SELL \<and>
   simple_strategy 100 100 [''sell'' \<mapsto> PInt 1] = Inr HOLD \<and>
   simple_strategy 92 96 [''buy'' \<mapsto> PFloat 0.02] = Inr BUY \<and>
   simple_strategy 92 96 [''sell'' \<mapsto> PFloat 0.03] = Inr BUY"
proof -
  note k = simple_strategy_missing_keys
  have both: "simple_strategy 92 96 Map.empty = Inr BUY"
    using k [THEN conjunct2, THEN conjunct2, THEN conjunct1, of Map.empty 92 96] by simp
  have no_sell: "simple_strategy 150 106 [''buy'' \<mapsto> PFloat 0.5] = Inr SELL"
    using k [THEN conjunct2, THEN conjunct2, THEN conjunct2, THEN conjunct2,
        of "[''buy'' \<mapsto> PFloat 0.5]" "PFloat 0.5" "0.5" 150 106] by simp
  have no_buy: "simple_strategy 100 100 [''sell'' \<mapsto> PInt 1] = Inr HOLD"
    using k [THEN conjunct2, THEN conjunct2, THEN conjunct2, THEN conjunct1,
        of "[''sell'' \<mapsto> PInt 1]" "PInt 1" 1 100 100] by simp
  have fill_buy: "simple_strategy 92 96 [''buy'' \<mapsto> PFloat 0.02] = Inr BUY"
    using k [THEN conjunct1, of Map.empty 92 96] both by simp
  have fill_sell: "simple_strategy 92 96 [''sell'' \<mapsto> PFloat 0.03] = Inr BUY"
    using k [THEN conjunct2, THEN conjunct1, of Map.empty 92 96] both by simp
  show ?thesis using both no_sell no_buy fill_buy fill_sell by blast
qed

section \<open>Properties of the moving average\<close>

lemma sorted_fixed_bounds:
  "sorted (map fst (fixed_bounds w n)) \<and> sorted (map snd (fixed_bounds w n))"
  by (auto simp: sorted_iff_nth_mono fixed_bounds_def fixed_bound_def)

lemma roll_mean_from_fixed:
  assumes "(k = 0 \<and> prev = None) \<or>
           (\<exists>k'. k = Suc k' \<and> prev = Some (fixed_bound w k') \<and> st = fixed_state rnd values w k')"
  shows "roll_mean_from rnd values minp True prev st (map (fixed_bound w) [k..<n]) =
           map (\<lambda>i. calc_mean rnd minp (fixed_state rnd values w i)) [k..<n]"
  using assms
proof (induction "n - k" arbitrary: k prev st)
  case 0
  then show ?case by simp
next
  case (Suc d)
  then have kn: "k < n" by simp
  have st1: "(case prev of
                   None \<Rightarrow> window_setup rnd values (fst (fixed_bound w k)) (snd (fixed_bound w k))
                 | Some p \<Rightarrow>
                     if \<not> True \<or> fst (fixed_bound w k) \<ge> snd p
                     then window_setup rnd values (fst (fixed_bound w k)) (snd (fixed_bound w k))
                     else window_slide rnd values p (fixed_bound w k) st)
             = fixed_state rnd values w k"
    using Suc.prems by auto
  have d: "d = n - Suc k" using Suc.hyps(2) by simp
  have rest: "roll_mean_from rnd values minp True (Some (fixed_bound w k))
        (fixed_state rnd values w k) (map (fixed_bound w) [Suc k..<n]) =
      map (\<lambda>i. calc_mean rnd minp (fixed_state rnd values w i)) [Suc k..<n]"
    by (rule Suc.hyps(1) [OF d]) simp
  show ?case
    using kn st1 rest by (simp add: upt_conv_Cons Let_def)
qed

lemma rolling_mean_states:
  "rolling_mean rnd w xs =
     map (\<lambda>i. calc_mean rnd (int w) (fixed_state rnd xs w i)) [0..<length xs]"
proof -
  have "roll_mean rnd xs (fixed_bounds w (length xs)) (int w) =
      roll_mean_from rnd xs (int w) True None (window_setup rnd xs 0 0)
        (fixed_bounds w (length xs))"
    unfolding roll_mean_def using sorted_fixed_bounds [of w "length xs"] by simp
  also have "\<dots> = map (\<lambda>i. calc_mean rnd (int w) (fixed_state rnd xs w i)) [0..<length xs]"
    unfolding fixed_bounds_def by (rule roll_mean_from_fixed) simp
  finally show ?thesis by (simp add: rolling_mean_def)
qed

lemma length_rolling_mean [simp]: "length (rolling_mean rnd w xs) = length xs"
  by (simp add: rolling_mean_states)












lemma snd_fixed_bound [simp]: "snd (fixed_bound w i) = Suc i"
  by (simp add: fixed_bound_def)
















lemma floor_log2:
  assumes "2 ^ n \<le> \<bar>x\<bar>" and "\<bar>x\<bar> < 2 ^ Suc n"
  shows "\<lfloor>log 2 \<bar>x\<bar>\<rfloor> = int n"
proof -
  have "(0 :: real) < 2 ^ n" by simp
  then have pos: "0 < \<bar>x\<bar>"
    using assms(1) by linarith
  have "2 powr real n \<le> \<bar>x\<bar>"
    using assms(1) by (simp add: powr_realpow)
  then have lo: "real n \<le> log 2 \<bar>x\<bar>"
    using pos by (subst le_log_iff) simp_all
  have "\<bar>x\<bar> < 2 powr real (Suc n)"
    using assms(2) by (simp only: powr_realpow zero_less_numeral)
  then have "log 2 \<bar>x\<bar> < real (Suc n)"
    using pos by (subst log_less_iff) simp_all
  then have hi: "log 2 \<bar>x\<bar> < of_int (int n) + 1"
    by simp
  show ?thesis
    by (rule floor_unique) (use lo hi in simp_all)
qed



lemma powr_of_int_neg: "2 powr of_int (- int k) = 1 / (2 :: real) ^ k"
proof -
  have "2 powr of_int (- int k) = 2 powr (- real k)" by simp
  also have "\<dots> = 1 / 2 powr real k" by (simp only: powr_minus_divide)
  also have "\<dots> = 1 / (2 :: real) ^ k" by (simp add: powr_realpow)
  finally show ?thesis .
qed

lemma float64_small:
  assumes "2 ^ n \<le> \<bar>x\<bar>" and "\<bar>x\<bar> < 2 ^ Suc n" and "n \<le> 52"
  shows "float64 x = of_int (round_half_even (x * 2 ^ (52 - n))) / 2 ^ (52 - n)"
proof -
  have "(0 :: real) < 2 ^ n" by simp
  then have nz: "x \<noteq> 0" using assms(1) by linarith
  have "int n - 52 = - int (52 - n)" using assms(3) by simp
  then have u: "2 powr of_int (\<lfloor>log 2 \<bar>x\<bar>\<rfloor> - 52) = 1 / (2 :: real) ^ (52 - n)"
    by (simp only: floor_log2 [OF assms(1,2)] powr_of_int_neg)
  show ?thesis
    unfolding float64_def Let_def u using nz by simp
qed



lemma float64_0 [simp]: "float64 0 = 0"
  by (simp add: float64_def)




lemma round_half_even_of_int [simp]: "round_half_even (of_int m) = m"
  by (simp add: round_half_even_def)

lemma int_power_ivl:
  assumes "k \<noteq> (0 :: int)"
  shows "\<exists>n. 2 ^ n \<le> \<bar>k\<bar> \<and> \<bar>k\<bar> < 2 ^ Suc n"
proof -
  from assms have "1 \<le> nat \<bar>k\<bar>" by simp
  from ex_power_ivl1 [OF _ this, of 2] obtain n where
    n: "2 ^ n \<le> nat \<bar>k\<bar>" "nat \<bar>k\<bar> < 2 ^ (n + 1)"
    by auto
  have "int (2 ^ n) \<le> int (nat \<bar>k\<bar>)"
    using n(1) by (simp only: of_nat_le_iff)
  then have lo: "2 ^ n \<le> \<bar>k\<bar>"
    by simp
  have "int (nat \<bar>k\<bar>) < int (2 ^ (n + 1))"
    using n(2) by (simp only: of_nat_less_iff)
  then have hi: "\<bar>k\<bar> < 2 ^ Suc n"
    by simp
  from lo hi show ?thesis by blast
qed

lemma float64_of_int:
  assumes "\<bar>k\<bar> < 2 ^ 53"
  shows "float64 (of_int k) = of_int k"
proof (cases "k = 0")
  case True
  then show ?thesis by simp
next
  case False
  from int_power_ivl [OF False] obtain n where n: "2 ^ n \<le> \<bar>k\<bar>" "\<bar>k\<bar> < 2 ^ Suc n"
    by blast
  have "real_of_int (2 ^ n) \<le> real_of_int \<bar>k\<bar>"
    using n(1) by (simp only: of_int_le_iff)
  then have lo: "2 ^ n \<le> \<bar>real_of_int k\<bar>"
    by simp
  have "real_of_int \<bar>k\<bar> < real_of_int (2 ^ Suc n)"
    using n(2) by (simp only: of_int_less_iff)
  then have hi: "\<bar>real_of_int k\<bar> < 2 ^ Suc n"
    by simp
  from n(1) assms have "(2 :: int) ^ n < 2 ^ 53"
    by (rule le_less_trans)
  then have "n < 53"
    by (simp only: power_strict_increasing_iff one_less_numeral_iff semiring_norm)
  then have n52: "n \<le> 52"
    by simp
  have "real_of_int k * 2 ^ (52 - n) = of_int (k * 2 ^ (52 - n))"
    by simp
  then have "round_half_even (real_of_int k * 2 ^ (52 - n)) = k * 2 ^ (52 - n)"
    by (simp only: round_half_even_of_int)
  then have "float64 (of_int k) = of_int (k * 2 ^ (52 - n)) / 2 ^ (52 - n)"
    by (simp only: float64_small [OF lo hi n52])
  then show ?thesis
    by simp
qed

lemma float64_numeral:
  "(numeral k :: int) < 9007199254740992 \<Longrightarrow> float64 (numeral k) = numeral k"
  "(numeral k :: int) < 9007199254740992 \<Longrightarrow> float64 (- numeral k) = - numeral k"
  using float64_of_int [of "numeral k"] float64_of_int [of "- numeral k"] by simp_all






section \<open>Properties of the parameter loaders\<close>

lemma truthy_Some [simp]: "truthy (Some t) = (t \<noteq> Map.empty)"
  by (simp add: truthy_def)

lemma truthy_None [simp]: "truthy None = False"
  by (simp add: truthy_def)

text \<open>
  The caller passes only \<^verbatim>\<open>"buy"\<close> and the file's section holds \<^verbatim>\<open>"sell"\<close>: parameter
  by parameter \<^verbatim>\<open>"sell"\<close> would come from the file, but both loaders return the caller's
  dictionary as it is, without \<^verbatim>\<open>"sell"\<close>.
\<close>

theorem loader_precedence_counterexample:
  "load_strategy_config_for_sim (Document [''simple'' \<mapsto> [''sell'' \<mapsto> PFloat 0.1]]) ''simple''
      (Some [''buy'' \<mapsto> PFloat 0.05]) ''sell'' = None \<and>
   load_config_for_simulator (Document [''simple'' \<mapsto> [''sell'' \<mapsto> PFloat 0.1]]) ''simple''
      (Some [''buy'' \<mapsto> PFloat 0.05]) ''sell'' = None \<and>
   spec_precedence [''buy'' \<mapsto> PFloat 0.05] [''sell'' \<mapsto> PFloat 0.1]
      [''buy'' \<mapsto> PFloat 0.02, ''sell'' \<mapsto> PFloat 0.03] ''sell'' = Some (PFloat 0.1)"
  by (simp add: load_strategy_config_for_sim_def load_config_for_simulator_def spec_precedence_def)

text \<open>
  C9, as the loaders resolve parameters. A non-empty dictionary from the caller is returned
  unchanged, whatever the file and the defaults hold. With nothing from the caller
  (\<^verbatim>\<open>None\<close> or the empty dictionary): the loader of strategy.py returns the defaults
  of the strategy overridden key by key by the file's section; the loader of simulator.py
  returns the file's section alone; with no loadable file both return the defaults of the
  strategy.
\<close>

theorem loader_precedence:
  "(truthy passed \<longrightarrow>
      load_strategy_config_for_sim file n passed = the passed \<and>
      load_config_for_simulator file n passed = the passed) \<and>
   (\<not> truthy passed \<longrightarrow>
      load_strategy_config_for_sim (Document config) n passed =
        section_of default_strategy_defaults n ++ section_of config n \<and>
      load_strategy_config_for_sim Missing n passed = section_of default_strategy_defaults n \<and>
      load_strategy_config_for_sim Unloadable n passed = section_of default_strategy_defaults n \<and>
      load_config_for_simulator (Document config) n passed = section_of config n \<and>
      load_config_for_simulator Missing n passed = section_of DEFAULT_THRESHOLDS n \<and>
      load_config_for_simulator Unloadable n passed = section_of DEFAULT_THRESHOLDS n)"
  by (simp add: load_strategy_config_for_sim_def load_config_for_simulator_def)

theorem loader_precedence_witness:
  "load_strategy_config_for_sim Missing ''simple'' (Some [''buy'' \<mapsto> PFloat 0.05]) ''buy''
     = Some (PFloat 0.05) \<and>
   load_strategy_config_for_sim (Document [''simple'' \<mapsto> [''sell'' \<mapsto> PFloat 0.1]]) ''simple'' None
     ''sell'' = Some (PFloat 0.1) \<and>
   load_strategy_config_for_sim (Document [''simple'' \<mapsto> [''sell'' \<mapsto> PFloat 0.1]]) ''simple'' None
     ''buy'' = Some (PFloat 0.02) \<and>
   load_config_for_simulator (Document [''simple'' \<mapsto> [''sell'' \<mapsto> PFloat 0.1]]) ''simple'' None
     ''buy'' = None"
proof -
  have t: "truthy (Some [''buy'' \<mapsto> PFloat 0.05])" by simp
  have f: "\<not> truthy None" by simp
  show ?thesis
    using loader_precedence [THEN conjunct1, rule_format, OF t, of Missing "''simple''"]
      loader_precedence [THEN conjunct2, rule_format, OF f,
        of "[''simple'' \<mapsto> [''sell'' \<mapsto> PFloat 0.1]]" "''simple''"]
    by (simp add: section_of_def default_strategy_defaults_def)
qed

section \<open>Properties of the oscillator\<close>

lemma length_ewm_from [simp]: "length (ewm_from \<alpha> y xs) = length xs"
  by (induction xs arbitrary: y) (simp_all add: Let_def)

lemma length_ewm_mean [simp]: "length (ewm_mean \<alpha> xs) = length xs"
  by (simp add: ewm_mean_def split: list.splits)

lemma ewm_from_nonneg:
  assumes "0 \<le> \<alpha>" and "\<alpha> \<le> 1"
  shows "0 \<le> y \<Longrightarrow> \<forall>x \<in> set xs. 0 \<le> x \<Longrightarrow> \<forall>z \<in> set (ewm_from \<alpha> y xs). 0 \<le> z"
proof (induction xs arbitrary: y)
  case Nil
  then show ?case by simp
next
  case (Cons x xs)
  have x: "0 \<le> x" and xs: "\<forall>x \<in> set xs. 0 \<le> x"
    using Cons.prems(2) by simp_all
  have "0 \<le> (1 - \<alpha>) * y" "0 \<le> \<alpha> * x"
    using assms Cons.prems(1) x by simp_all
  then have y': "0 \<le> (1 - \<alpha>) * y + \<alpha> * x"
    by linarith
  have "\<forall>z \<in> set (ewm_from \<alpha> ((1 - \<alpha>) * y + \<alpha> * x) xs). 0 \<le> z"
    by (rule Cons.IH [OF y' xs])
  with y' show ?case
    by (simp add: Let_def)
qed

lemma ewm_mean_nonneg:
  assumes "0 \<le> \<alpha>" and "\<alpha> \<le> 1" and "\<forall>x \<in> set xs. 0 \<le> x"
  shows "\<forall>z \<in> set (ewm_mean \<alpha> xs). 0 \<le> z"
proof (cases xs)
  case Nil
  then show ?thesis by (simp add: ewm_mean_def)
next
  case (Cons x xs')
  then show ?thesis
    using assms ewm_from_nonneg [OF assms(1,2), of x xs'] by (simp add: ewm_mean_def)
qed

lemma gain_nonneg: "\<forall>x \<in> set (gain d). 0 \<le> x"
  by (auto simp: gain_def split: option.splits)

lemma loss_nonneg: "\<forall>x \<in> set (loss d). 0 \<le> x"
  by (auto simp: loss_def split: option.splits)

lemma length_gain_diff [simp]: "length (gain (diff c)) = length c"
  by (simp add: gain_def diff_def)

lemma length_loss_diff [simp]: "length (loss (diff c)) = length c"
  by (simp add: loss_def diff_def)

lemma alpha_range: "1 \<le> w \<Longrightarrow> 0 \<le> 1 / (1 + real_of_int (w - 1)) \<and> 1 / (1 + real_of_int (w - 1)) \<le> 1"
  by simp

lemma avg_gain_nonneg: "1 \<le> w \<Longrightarrow> i < length c \<Longrightarrow> 0 \<le> avg_gain_of c w ! i"
proof -
  assume w: "1 \<le> w" and i: "i < length c"
  have "\<forall>z \<in> set (avg_gain_of c w). 0 \<le> z"
    unfolding avg_gain_of_def
    by (rule ewm_mean_nonneg [OF alpha_range [OF w, THEN conjunct1]
          alpha_range [OF w, THEN conjunct2] gain_nonneg])
  moreover have "avg_gain_of c w ! i \<in> set (avg_gain_of c w)"
    using i by (simp add: avg_gain_of_def)
  ultimately show ?thesis by blast
qed

lemma avg_loss_nonneg: "1 \<le> w \<Longrightarrow> i < length c \<Longrightarrow> 0 \<le> avg_loss_of c w ! i"
proof -
  assume w: "1 \<le> w" and i: "i < length c"
  have "\<forall>z \<in> set (avg_loss_of c w). 0 \<le> z"
    unfolding avg_loss_of_def
    by (rule ewm_mean_nonneg [OF alpha_range [OF w, THEN conjunct1]
          alpha_range [OF w, THEN conjunct2] loss_nonneg])
  moreover have "avg_loss_of c w ! i \<in> set (avg_loss_of c w)"
    using i by (simp add: avg_loss_of_def)
  ultimately show ?thesis by blast
qed

lemma length_avg [simp]:
  "length (avg_gain_of c w) = length c" "length (avg_loss_of c w) = length c"
  by (simp_all add: avg_gain_of_def avg_loss_of_def)

lemma rsi_value_range:
  assumes "0 \<le> g" and "0 \<le> l" and "rsi_value g l = Some v"
  shows "0 \<le> v \<and> v \<le> 100"
proof (cases "l = 0")
  case True
  then show ?thesis using assms by (auto simp: rsi_value_def split: if_splits)
next
  case False
  then have "0 < l" using assms by simp
  then have "0 \<le> g / l" using assms by simp
  then have "1 \<le> 1 + g / l" by simp
  then have "100 / (1 + g / l) \<le> 100" "0 \<le> 100 / (1 + g / l)"
    by (simp_all add: divide_le_eq)
  moreover have "v = 100 - 100 / (1 + g / l)"
    using assms False by (simp add: rsi_value_def)
  ultimately show ?thesis by simp
qed

lemma calculate_rsi_eq:
  assumes "1 \<le> w" and "Close data = Some c"
  shows "calculate_rsi data w =
           Inr (iloc_set_na (nat w)
                  (fillna 100 (map (\<lambda>(g, l). rsi_value g l)
                                 (zip (avg_gain_of c w) (avg_loss_of c w)))))"
proof -
  have "\<not> w - 1 < 0" using assms(1) by simp
  then show ?thesis
    using assms(2) by (simp add: calculate_rsi_def ewm_def avg_gain_of_def avg_loss_of_def Let_def)
qed

lemma calculate_rsi_nth:
  assumes "1 \<le> w" and "Close data = Some c" and "calculate_rsi data w = Inr rsi"
    and "i < length c"
  shows "rsi ! i = (if i < nat w then None
                    else case rsi_value (avg_gain_of c w ! i) (avg_loss_of c w ! i) of
                           None \<Rightarrow> Some 100 | Some x \<Rightarrow> Some x)"
proof -
  have "rsi = iloc_set_na (nat w)
                (fillna 100 (map (\<lambda>(g, l). rsi_value g l)
                               (zip (avg_gain_of c w) (avg_loss_of c w))))"
    using assms(3) calculate_rsi_eq [OF assms(1,2)] by simp
  then show ?thesis
    using assms(4) by (simp add: iloc_set_na_def fillna_def)
qed

text \<open>
  C5. For a window \<open>w \<ge> 1\<close>, \<^verbatim>\<open>calculate_rsi\<close> returns a series as long as the prices in
  which every defined value lies in \<open>[0, 100]\<close>, every row from \<open>w\<close> on whose smoothed loss is
  exactly zero holds 100, and rows \<open>0, \<dots>, w - 1\<close> are undefined. (A window below 1 makes
  \<^verbatim>\<open>ewm\<close> raise ValueError.)
\<close>

theorem calculate_rsi_bounded:
  assumes "1 \<le> w" and "Close data = Some c"
  shows "\<exists>rsi. calculate_rsi data w = Inr rsi \<and> length rsi = length c \<and>
           (\<forall>i < length c. \<forall>v. rsi ! i = Some v \<longrightarrow> 0 \<le> v \<and> v \<le> 100) \<and>
           (\<forall>i < length c. nat w \<le> i \<and> avg_loss_of c w ! i = 0 \<longrightarrow> rsi ! i = Some 100) \<and>
           (\<forall>i < length c. i < nat w \<longrightarrow> rsi ! i = None)"
proof -
  define rsi where "rsi = iloc_set_na (nat w)
      (fillna 100 (map (\<lambda>(g, l). rsi_value g l) (zip (avg_gain_of c w) (avg_loss_of c w))))"
  have run: "calculate_rsi data w = Inr rsi"
    unfolding rsi_def by (rule calculate_rsi_eq [OF assms])
  have len: "length rsi = length c"
    by (simp add: rsi_def iloc_set_na_def fillna_def)
  note nth = calculate_rsi_nth [OF assms run]
  have bound: "0 \<le> v \<and> v \<le> 100" if i: "i < length c" and v: "rsi ! i = Some v" for i v
  proof (cases "rsi_value (avg_gain_of c w ! i) (avg_loss_of c w ! i)")
    case None
    then show ?thesis using nth [OF i] v by (simp split: if_splits)
  next
    case (Some x)
    then have "0 \<le> x \<and> x \<le> 100"
      using rsi_value_range [OF avg_gain_nonneg [OF assms(1) i] avg_loss_nonneg [OF assms(1) i]]
      by simp
    then show ?thesis using nth [OF i] v Some by (simp split: if_splits)
  qed
  have forced: "rsi ! i = Some 100"
    if i: "i < length c" and z: "nat w \<le> i \<and> avg_loss_of c w ! i = 0" for i
    using nth [OF i] z by (simp add: rsi_value_def)
  have warm: "rsi ! i = None" if i: "i < length c" and "i < nat w" for i
    using nth [OF i] that(2) by simp
  show ?thesis
    using run len bound forced warm by blast
qed

lemma calculate_rsi_bad_window:
  "w < 1 \<Longrightarrow> Close data = Some c \<Longrightarrow> calculate_rsi data w = Inl ValueError"
  by (simp add: calculate_rsi_def ewm_def)

theorem calculate_rsi_bounded_witness:
  "\<exists>rsi. calculate_rsi \<lparr>nrows = 4, Close = Some [1, 2, 3, 2], SMA = None, RSI = None,
             Signal = None, other_columns = []\<rparr> 2 = Inr rsi \<and>
         rsi ! 1 = None \<and> rsi ! 2 = Some 100 \<and>
         (\<exists>v. rsi ! 3 = Some v \<and> 0 \<le> v \<and> v \<le> 100)"
proof -
  let ?c = "[1, 2, 3, 2 :: real]"
  let ?d = "\<lparr>nrows = 4, Close = Some ?c, SMA = None, RSI = None,
             Signal = None, other_columns = []\<rparr>"
  have w: "(1 :: int) \<le> 2" by simp
  have c: "Close ?d = Some ?c" by simp
  have zero: "avg_loss_of ?c 2 ! 2 = 0"
    by (simp add: avg_loss_of_def ewm_mean_def loss_def diff_def upt_conv_Cons Let_def)
  have last: "rsi_value (avg_gain_of ?c 2 ! 3) (avg_loss_of ?c 2 ! 3) = Some (300 / 7)"
    by (simp add: avg_loss_of_def avg_gain_of_def ewm_mean_def loss_def gain_def diff_def
        upt_conv_Cons Let_def rsi_value_def)
  obtain rsi where run: "calculate_rsi ?d 2 = Inr rsi"
    and bound: "\<forall>i < length ?c. \<forall>v. rsi ! i = Some v \<longrightarrow> 0 \<le> v \<and> v \<le> 100"
    and forced: "\<forall>i < length ?c. nat 2 \<le> i \<and> avg_loss_of ?c 2 ! i = 0 \<longrightarrow> rsi ! i = Some 100"
    and warm: "\<forall>i < length ?c. i < nat 2 \<longrightarrow> rsi ! i = None"
    using calculate_rsi_bounded [OF w c] by blast
  have r1: "rsi ! 1 = None"
    using warm [rule_format, of 1] by simp
  have r2: "rsi ! 2 = Some 100"
    using forced [rule_format, of 2] zero by simp
  have r3: "rsi ! 3 = Some (300 / 7)"
    using calculate_rsi_nth [OF w c run, of 3] last by simp
  have "0 \<le> (300 / 7 :: real) \<and> (300 / 7 :: real) \<le> 100"
    using bound [rule_format, of 3, OF _ r3] by simp
  with r3 have "\<exists>v. rsi ! 3 = Some v \<and> 0 \<le> v \<and> v \<le> 100"
    by blast
  with run r1 r2 show ?thesis by blast
qed

section \<open>Properties of the cross/threshold rule\<close>

lemma signal_at_undefined: "sma = None \<or> rsi = None \<Longrightarrow> signal_at close sma rsi os ob = 0"
  by (auto simp: signal_at_def buy_condition_def sell_condition_def)

lemma signal_at_range: "signal_at close sma rsi os ob \<in> {- 1, 0, 1}"
  by (simp add: signal_at_def)

lemma length_align [simp]: "length (align n s) = n"
  by (simp add: align_def)

lemma signals_core:
  assumes "length sma = nrows data" and "length rsi = nrows data"
    and "(let data1 = data\<lparr>SMA := Some sma, RSI := Some rsi,
                                   Signal := Some (replicate (nrows data) 0)\<rparr>
                  in if all_null sma \<or> all_null rsi then Inr data1
                     else
                       (case Close data of
                          None \<Rightarrow> Inl KeyError
                        | Some close \<Rightarrow>
                            Inr (data1\<lparr>Signal := Some
                              (map (\<lambda>i. signal_at (close ! i) (sma ! i) (rsi ! i) os ob)
                                   [0..<nrows data])\<rparr>))) = Inr out"
  shows "signals_ok data out"
proof (cases "all_null sma \<or> all_null rsi")
  case True
  then have "out = data\<lparr>SMA := Some sma, RSI := Some rsi, Signal := Some (replicate (nrows data) 0)\<rparr>"
    using assms(3) by (simp add: Let_def)
  then show ?thesis
    using assms(1,2) by (simp add: signals_ok_def)
next
  case False
  then obtain close where c: "Close data = Some close"
    and out: "out = data\<lparr>SMA := Some sma, RSI := Some rsi,
        Signal := Some (map (\<lambda>i. signal_at (close ! i) (sma ! i) (rsi ! i) os ob) [0..<nrows data])\<rparr>"
    using assms(3) by (auto simp: Let_def split: option.splits)
  show ?thesis
    using assms(1,2) signal_at_range by (simp add: signals_ok_def out signal_at_undefined)
qed

text \<open>
  C8. A frame returned by \<^verbatim>\<open>generate_signals\<close> is either the new empty frame (the input
  was empty) or carries SMA, RSI and Signal columns of one cell per row in which every row
  whose SMA or RSI is undefined has signal 0: never 1 (BUY) or -1 (SELL).
\<close>

theorem generate_signals_undefined_hold:
  assumes "wf_frame data" and "generate_signals data sw rw os ob = Inr out"
  shows "out = new_frame \<or>
         (\<exists>sma rsi sig. SMA out = Some sma \<and> RSI out = Some rsi \<and> Signal out = Some sig \<and>
            nrows out = nrows data \<and> length sma = nrows out \<and> length rsi = nrows out \<and>
            length sig = nrows out \<and>
            (\<forall>i < nrows out. (sma ! i = None \<or> rsi ! i = None) \<longrightarrow> sig ! i = 0) \<and>
            (\<forall>i < nrows out. sig ! i \<in> {- 1, 0, 1}))"
proof (cases "empty_frame data")
  case True
  then show ?thesis
    using assms(2) by (simp add: generate_signals_def)
next
  case False
  let ?S = "case SMA data of
              Some s \<Rightarrow> Inr s
            | None \<Rightarrow> (case calculate_sma float64 data sw of
                         Inl e \<Rightarrow> Inl e
                       | Inr s \<Rightarrow> Inr (align (nrows data) s))"
  let ?R = "case RSI data of
              Some r \<Rightarrow> Inr r
            | None \<Rightarrow> (case calculate_rsi data rw of
                         Inl e \<Rightarrow> Inl e
                       | Inr r \<Rightarrow> Inr (align (nrows data) r))"
  obtain sma where sma: "?S = Inr sma"
    using assms(2) False by (cases ?S) (simp_all add: generate_signals_def)
  obtain rsi where rsi: "?R = Inr rsi"
    using assms(2) False sma by (cases ?R) (simp_all add: generate_signals_def)
  have ls: "length sma = nrows data"
    using sma assms(1) by (auto simp: wf_frame_def split: option.splits sum.splits)
  have lr: "length rsi = nrows data"
    using rsi assms(1) by (auto simp: wf_frame_def split: option.splits sum.splits)
  have "signals_ok data out"
    by (rule signals_core [OF ls lr, of os ob])
       (use assms(2) False sma rsi in \<open>simp add: generate_signals_def\<close>)
  then show ?thesis
    by (simp add: signals_ok_def)
qed

theorem generate_signals_undefined_hold_witness:
  "\<exists>out sig. generate_signals
        \<lparr>nrows = 3, Close = Some [10, 12, 8], SMA = Some [None, Some 11, Some 9],
         RSI = Some [None, Some 20, Some 80], Signal = None, other_columns = []\<rparr>
        20 14 30 70 = Inr out \<and>
      Signal out = Some sig \<and> sig ! 0 = 0 \<and> sig ! 1 = 1 \<and> sig ! 2 = - 1"
proof -
  let ?d = "\<lparr>nrows = 3, Close = Some [10, 12, 8 :: real], SMA = Some [None, Some 11, Some 9],
         RSI = Some [None, Some 20, Some 80], Signal = None, other_columns = []\<rparr>"
  let ?out = "?d\<lparr>Signal := Some [0, 1, - 1]\<rparr>"
  have wf: "wf_frame ?d"
    by (simp add: wf_frame_def)
  have run: "generate_signals ?d 20 14 30 70 = Inr ?out"
    by (simp add: generate_signals_def empty_frame_def all_null_def signal_at_def
        buy_condition_def sell_condition_def upt_conv_Cons)
  have "?out \<noteq> new_frame"
    by (simp add: new_frame_def)
  then obtain sma rsi sig where cols: "SMA ?out = Some sma" "RSI ?out = Some rsi"
      "Signal ?out = Some sig"
    and hold: "\<forall>i < nrows ?out. (sma ! i = None \<or> rsi ! i = None) \<longrightarrow> sig ! i = 0"
    using generate_signals_undefined_hold [OF wf run] by blast
  have "sma ! 0 = None" using cols(1) by auto
  then have "sig ! 0 = 0" using hold [rule_format, of 0] by simp
  moreover have "sig ! 1 = 1" "sig ! 2 = - 1" using cols(3) by auto
  ultimately show ?thesis using run cols(3) by blast
qed

section \<open>Properties of the simulators\<close>

lemma map_insort_key: "map f (insort_key f x xs) = insort (f x) (map f xs)"
  by (induction xs) simp_all

lemma map_sort_key: "map f (sort_key f xs) = sort (map f xs)"
  by (induction xs) (simp_all add: map_insort_key)

lemma length_roll_mean_from [simp]:
  "length (roll_mean_from rnd vs minp m prev st bounds) = length bounds"
  by (induction bounds arbitrary: prev st) (simp_all add: Let_def)

lemma length_variable_bounds_from [simp]:
  "length (variable_bounds_from index offset prev rows) = length rows"
  by (induction rows arbitrary: prev) (simp_all add: Let_def)

lemma length_variable_bounds [simp]: "length (variable_bounds index offset) = length index"
  by (cases index) (simp_all add: variable_bounds_def del: upt_Suc)

lemma length_rolling_offset [simp]: "length (rolling_offset rnd k rows) = length rows"
  unfolding rolling_offset_def roll_mean_def by simp

lemma length_rolling_pyval:
  "rolling_pyval window rows = Inr ma \<Longrightarrow> length ma = length rows"
  by (cases window) (auto simp: rolling_def split: if_splits)

lemma map_zip_moving_avg:
  "length ma = length df \<Longrightarrow> map (snd \<circ> fst) (zip df ma) = map snd df"
  "length ma = length df \<Longrightarrow> map (fst \<circ> fst) (zip df ma) = map fst df"
  by (simp_all add: map_fst_zip flip: map_map)

lemma simulator_step_ok:
  assumes "pos = 0 \<or> pos = 1" and "simulator_step n t bal pos ((ts, p), ma) = Inr d"
  shows "step_ok bal pos p d"
  using assms
  by (auto simp: simulator_step_def log_row_def step_ok_def
      split: option.splits sum.splits action.splits if_splits)

lemma simulator_step_timestamp:
  "simulator_step n t bal pos ((ts, p), ma) = Inr d \<Longrightarrow> timestamp d = ts"
  by (auto simp: simulator_step_def log_row_def
      split: option.splits sum.splits action.splits if_splits)

lemma simulator_loop_ok:
  "pos = 0 \<or> pos = 1 \<Longrightarrow> simulator_loop n t bal pos rs = Inr ds \<Longrightarrow>
     trace_ok bal pos (map (snd \<circ> fst) rs) ds \<and> map timestamp ds = map (fst \<circ> fst) rs"
proof (induction rs arbitrary: bal pos ds)
  case Nil
  then show ?case by simp
next
  case (Cons r rs)
  obtain ts p ma where r: "r = ((ts, p), ma)"
    by (metis surj_pair)
  from Cons.prems(2) obtain d ds' where d: "simulator_step n t bal pos r = Inr d"
    and ds': "simulator_loop n t (balance d) (position d) rs = Inr ds'" and ds: "ds = d # ds'"
    by (auto split: sum.splits)
  have ok: "step_ok bal pos p d"
    using simulator_step_ok [OF Cons.prems(1)] d r by simp
  then have "position d = 0 \<or> position d = 1"
    by (simp add: step_ok_def)
  from Cons.IH [OF this ds'] ok simulator_step_timestamp d r ds show ?case
    by simp
qed

lemma simulator_run_loop:
  assumes "simulator_run_simulation file (Prices rows) n thr init = Some logs"
  shows "simulator_loop n (simulator_thresholds file n thr) init 0
           (zip (sort_key fst rows) (rolling_mean float64 5 (map snd (sort_key fst rows)))) = Inr logs"
  using assms
  by (auto simp: simulator_run_simulation_def Let_def split: if_splits sum.splits)

lemma simulator_run_constraints:
  assumes "simulator_run_simulation file (Prices rows) n thr init = Some logs"
  shows "trace_ok init 0 (map snd (sort_key fst rows)) logs"
    and "map timestamp logs = sort (map fst rows)"
  using simulator_loop_ok [OF _ simulator_run_loop [OF assms]]
  by (simp_all add: map_zip_moving_avg map_sort_key)

lemma simulator_step_downgrade:
  assumes "simple_strategy p m t = Inr a"
  shows "\<exists>d. simulator_step ''simple'' t bal pos ((ts, p), Some m) = Inr d \<and>
           side d = (if a = BUY \<and> p \<le> bal \<and> pos = 0 then BUY
                     else if a = SELL \<and> 1 \<le> pos then SELL else HOLD) \<and>
           (side d = HOLD \<longrightarrow> balance d = bal \<and> position d = pos)"
  using assms by (cases a) (simp_all add: simulator_step_def log_row_def)

lemma simple_strategy_floats:
  "simple_strategy p m (buy_sell (PFloat b) (PFloat s)) =
     Inr (if p < m * (1 - b) then BUY else if p > m * (1 + s) then SELL else HOLD)"
  by (simp add: simple_strategy_def buy_sell_def dict_get_def)

lemma simple_strategy_numeric:
  assumes "num_of (dict_get t ''buy'' (PFloat 0.02)) = Some b"
    and "num_of (dict_get t ''sell'' (PFloat 0.03)) = Some s"
  shows "simple_strategy p m t =
           Inr (if p < m * (1 - b) then BUY else if p > m * (1 + s) then SELL else HOLD)"
  using assms by (simp add: simple_strategy_def)

lemma simulator_step_total:
  assumes "n \<noteq> ''simple'' \<or>
           (num_of (dict_get t ''buy'' (PFloat 0.02)) \<noteq> None \<and>
            num_of (dict_get t ''sell'' (PFloat 0.03)) \<noteq> None)"
  shows "\<exists>d. simulator_step n t bal pos r = Inr d"
proof -
  obtain ts p ma where r: "r = ((ts, p), ma)" by (metis surj_pair)
  show ?thesis
  proof (cases "n = ''simple''")
    case True
    with assms obtain b s where "num_of (dict_get t ''buy'' (PFloat 0.02)) = Some b"
      "num_of (dict_get t ''sell'' (PFloat 0.03)) = Some s"
      by auto
    from simple_strategy_numeric [OF this] show ?thesis
      by (simp add: r simulator_step_def True split: option.splits)
  next
    case False
    then show ?thesis
      by (simp add: r simulator_step_def split: option.splits)
  qed
qed

lemma simulator_loop_total:
  assumes "n \<noteq> ''simple'' \<or>
           (num_of (dict_get t ''buy'' (PFloat 0.02)) \<noteq> None \<and>
            num_of (dict_get t ''sell'' (PFloat 0.03)) \<noteq> None)"
  shows "\<exists>ds. simulator_loop n t bal pos rs = Inr ds \<and> length ds = length rs"
proof (induction rs arbitrary: bal pos)
  case Nil
  then show ?case by simp
next
  case (Cons r rs)
  obtain d where d: "simulator_step n t bal pos r = Inr d"
    using simulator_step_total [OF assms] by blast
  obtain ds where "simulator_loop n t (balance d) (position d) rs = Inr ds" "length ds = length rs"
    using Cons.IH by blast
  with d show ?case by simp
qed

lemma simulator_run_empty: "simulator_run_simulation file (Prices []) n thr init = None"
  by (simp add: simulator_run_simulation_def rolling_mean_def Let_def)

lemma simulator_run_not_empty_log: "simulator_run_simulation file src n thr init \<noteq> Some []"
  by (auto simp: simulator_run_simulation_def Let_def split: data_source.splits sum.splits)

lemma simulator_run_total:
  assumes "rows \<noteq> []" and "simulator_thresholds file n thr \<noteq> Map.empty"
    and "n \<noteq> ''simple'' \<or>
           (num_of (dict_get (simulator_thresholds file n thr) ''buy'' (PFloat 0.02)) \<noteq> None \<and>
            num_of (dict_get (simulator_thresholds file n thr) ''sell'' (PFloat 0.03)) \<noteq> None)"
  shows "\<exists>logs. simulator_run_simulation file (Prices rows) n thr init = Some logs \<and>
           length logs = length rows"
proof -
  let ?rs = "zip (sort_key fst rows) (rolling_mean float64 5 (map snd (sort_key fst rows)))"
  obtain ds where ds: "simulator_loop n (simulator_thresholds file n thr) init 0 ?rs = Inr ds"
    and len: "length ds = length ?rs"
    using simulator_loop_total [OF assms(3)] by blast
  have "length ?rs = length rows" by simp
  with len assms(1) have "ds \<noteq> []" "length ds = length rows" by auto
  with ds assms(2) show ?thesis
    by (simp add: simulator_run_simulation_def Let_def)
qed

lemma strategy_step_never_trades:
  assumes "strategy_step n t w bal 0 ((ts, p), ma) = Inr d"
  shows "side d = HOLD \<and> balance d = bal \<and> position d = 0 \<and> timestamp d = ts"
  using assms
  by (auto simp: strategy_step_def log_row_def
      split: option.splits sum.splits action.splits if_splits prod.splits)

lemma strategy_loop_never_trades:
  "strategy_loop n t w bal 0 rs = Inr ds \<Longrightarrow>
     (\<forall>d \<in> set ds. side d = HOLD \<and> balance d = bal \<and> position d = 0) \<and>
     map timestamp ds = map (fst \<circ> fst) rs"
proof (induction rs arbitrary: ds)
  case Nil
  then show ?case by simp
next
  case (Cons r rs)
  obtain ts p ma where r: "r = ((ts, p), ma)"
    by (metis surj_pair)
  from Cons.prems obtain d where d: "strategy_step n t w bal 0 r = Inr d"
    by (auto split: sum.splits)
  have h: "side d = HOLD \<and> balance d = bal \<and> position d = 0 \<and> timestamp d = ts"
    using strategy_step_never_trades d r by simp
  with Cons.prems d obtain ds' where ds': "strategy_loop n t w bal 0 rs = Inr ds'"
    and ds: "ds = d # ds'"
    by (auto split: sum.splits)
  from Cons.IH [OF ds'] h r ds show ?case
    by simp
qed

lemma strategy_run_loop:
  assumes "strategy_run_simulation file (Prices rows) n params init = Inr (Some logs)"
  shows "\<exists>ma. length ma = length rows \<and>
           strategy_loop n (load_strategy_config_for_sim file n params)
             (dict_get (load_strategy_config_for_sim file n params) ''window_size''
                (PInt DEFAULT_WINDOW_SIZE)) init 0
             (zip (sort_key fst rows) ma) = Inr logs"
proof -
  let ?t = "load_strategy_config_for_sim file n params"
  let ?ws = "dict_get ?t ''window_size'' (PInt DEFAULT_WINDOW_SIZE)"
  obtain ma where ma: "rolling_pyval ?ws (sort_key fst rows) = Inr ma"
    and loop: "strategy_loop n ?t ?ws init 0 (zip (sort_key fst rows) ma) = Inr logs"
    using assms
    by (auto simp: strategy_run_simulation_def Let_def split: if_splits sum.splits)
  have "length ma = length rows"
    using length_rolling_pyval [OF ma] by simp
  with loop show ?thesis by blast
qed

lemma strategy_never_trades:
  assumes "strategy_run_simulation file (Prices rows) n params init = Inr (Some logs)"
  shows "\<forall>d \<in> set logs. side d = HOLD \<and> balance d = init \<and> position d = 0"
    and "map timestamp logs = sort (map fst rows)"
proof -
  obtain ma where "length ma = length rows"
    and "strategy_loop n (load_strategy_config_for_sim file n params)
           (dict_get (load_strategy_config_for_sim file n params) ''window_size''
              (PInt DEFAULT_WINDOW_SIZE)) init 0
           (zip (sort_key fst rows) ma) = Inr logs"
    using strategy_run_loop [OF assms] by blast
  from strategy_loop_never_trades [OF this(2)] this(1)
  show "\<forall>d \<in> set logs. side d = HOLD \<and> balance d = init \<and> position d = 0"
    and "map timestamp logs = sort (map fst rows)"
    by (simp_all add: map_zip_moving_avg map_sort_key)
qed

lemma strategy_run_not_empty_log: "strategy_run_simulation file src n thr init \<noteq> Inr (Some [])"
  by (auto simp: strategy_run_simulation_def Let_def split: data_source.splits sum.splits)

lemma scenario_sorted: "sort_key fst scenario = scenario"
  by (simp add: scenario_def)

lemma scenario_moving_avg:
  "rolling_mean float64 5 (map snd scenario) = [None, None, None, None, Some 96, Some 106]"
  by (simp add: scenario_def rolling_mean_states upt_conv_Cons eval_nat_numeral fixed_bound_def
      window_setup_def window_slide_def add_mean_def remove_mean_def calc_mean_def
      float64_numeral Let_def)

lemma buy_sell_nonempty [simp]: "buy_sell b s \<noteq> Map.empty"
  by (simp add: buy_sell_def)

lemma scenario_simulator:
  "\<exists>logs. simulator_run_simulation Missing (Prices scenario) ''simple''
             (Some (buy_sell (PFloat 0.02) (PFloat 0.03))) 1000 = Some logs \<and>
          length logs = 6 \<and>
          side (logs ! 4) = BUY \<and> balance (logs ! 4) = 908 \<and> position (logs ! 4) = 1 \<and>
          side (logs ! 5) = SELL \<and> balance (logs ! 5) = 1058 \<and> position (logs ! 5) = 0"
  by (simp add: simulator_run_simulation_def simulator_thresholds_def scenario_sorted
      scenario_moving_avg Let_def)
     (simp add: scenario_def simulator_step_def simple_strategy_floats log_row_def)

lemma scenario_strategy:
  "strategy_run_simulation Missing (Prices scenario) ''simple''
     (Some [''buy'' \<mapsto> PFloat 0.02, ''sell'' \<mapsto> PFloat 0.03, ''window_size'' \<mapsto> PInt 5]) 1000
     = Inl NameError"
  by (simp add: strategy_run_simulation_def load_strategy_config_for_sim_def dict_get_def
      rolling_def scenario_sorted scenario_moving_avg Let_def)
     (simp add: scenario_def strategy_step_def simple_strategy_floats log_row_def dict_get_def)

lemma scenario_simulator_poor:
  "\<exists>logs. simulator_run_simulation Missing (Prices scenario) ''simple''
             (Some (buy_sell (PFloat 0.02) (PFloat 0.03))) 5 = Some logs \<and>
          length logs = 6 \<and>
          side (logs ! 4) = HOLD \<and> reason (logs ! 4) = BuyRecommended 92 (Some 96) 5 0 \<and>
          balance (logs ! 4) = 5 \<and> position (logs ! 4) = 0"
  by (simp add: simulator_run_simulation_def simulator_thresholds_def scenario_sorted
      scenario_moving_avg Let_def)
     (simp add: scenario_def simulator_step_def simple_strategy_floats log_row_def)

lemma scenario_strategy_poor:
  "strategy_run_simulation Missing (Prices scenario) ''simple''
     (Some [''buy'' \<mapsto> PFloat 0.02, ''sell'' \<mapsto> PFloat 0.03, ''window_size'' \<mapsto> PInt 5]) 5
     = Inl NameError"
  by (simp add: strategy_run_simulation_def load_strategy_config_for_sim_def dict_get_def
      rolling_def scenario_sorted scenario_moving_avg Let_def)
     (simp add: scenario_def strategy_step_def simple_strategy_floats log_row_def dict_get_def)

lemma scenario_simulator_defaults:
  "\<exists>logs. simulator_run_simulation Missing (Prices scenario) ''simple'' None 10000 = Some logs \<and>
          map timestamp logs = [0, 1, 2, 3, 4, 5]"
  by (simp add: simulator_run_simulation_def simulator_thresholds_def
      load_config_for_simulator_def section_of_def DEFAULT_THRESHOLDS_def scenario_sorted
      scenario_moving_avg Let_def)
     (simp add: scenario_def simulator_step_def simple_strategy_def dict_get_def log_row_def)

lemma scenario_strategy_defaults:
  "strategy_run_simulation Missing (Prices scenario) ''simple'' None 10000 = Inl NameError"
  by (simp add: strategy_run_simulation_def load_strategy_config_for_sim_def section_of_def
      default_strategy_defaults_def DEFAULT_WINDOW_SIZE_def dict_get_def
      rolling_def scenario_sorted scenario_moving_avg Let_def)
     (simp add: scenario_def strategy_step_def simple_strategy_floats log_row_def dict_get_def)

lemma strategy_run_empty:
  assumes "dict_get (load_strategy_config_for_sim file n thr) ''window_size''
             (PInt DEFAULT_WINDOW_SIZE) = PInt w" and "0 \<le> w"
  shows "strategy_run_simulation file (Prices []) n thr init = Inr None"
  using assms
  by (simp add: strategy_run_simulation_def rolling_def rolling_mean_def roll_mean_def
      fixed_bounds_def Let_def)

lemma empty_defaults:
  "simulator_run_simulation Missing (Prices []) ''simple'' None 10000 = None"
  "strategy_run_simulation Missing (Prices []) ''simple'' None 10000 = Inr None"
proof -
  show "simulator_run_simulation Missing (Prices []) ''simple'' None 10000 = None"
    by (rule simulator_run_empty)
  have "dict_get (load_strategy_config_for_sim Missing ''simple'' None) ''window_size''
          (PInt DEFAULT_WINDOW_SIZE) = PInt 5"
    by (simp add: load_strategy_config_for_sim_def section_of_def default_strategy_defaults_def
        DEFAULT_WINDOW_SIZE_def dict_get_def)
  then show "strategy_run_simulation Missing (Prices []) ''simple'' None 10000 = Inr None"
    by (rule strategy_run_empty) simp
qed

text \<open>
  C1. On the scenario with fractions 0.02 and 0.03, window 5 and an initial balance of 5, a
  BUY is proposed at index 4 (price 92, moving average 96) that the balance cannot pay for.
  The simulator of simulator.py logs a HOLD there, with the reason that a BUY was
  recommended, and leaves balance 5 and position 0. The simulator of strategy.py does not
  downgrade the BUY to a HOLD: its BUY branch reads \<^verbatim>\<open>quantity_to_buy_buy\<close> before it
  looks at the balance, and the call raises NameError.
\<close>

theorem buy_without_balance:
  "(\<exists>logs. simulator_run_simulation Missing (Prices scenario) ''simple''
             (Some (buy_sell (PFloat 0.02) (PFloat 0.03))) 5 = Some logs \<and>
          length logs = 6 \<and>
          side (logs ! 4) = HOLD \<and> reason (logs ! 4) = BuyRecommended 92 (Some 96) 5 0 \<and>
          balance (logs ! 4) = 5 \<and> position (logs ! 4) = 0) \<and>
   strategy_run_simulation Missing (Prices scenario) ''simple''
     (Some [''buy'' \<mapsto> PFloat 0.02, ''sell'' \<mapsto> PFloat 0.03, ''window_size'' \<mapsto> PInt 5]) 5
     = Inl NameError"
  using scenario_simulator_poor scenario_strategy_poor by blast

text \<open>
  C3. On the scenario with window 5, fractions 0.02 and 0.03 and balance 1000, the simulator
  of simulator.py logs a BUY at index 4 (balance 908, position 1) and a SELL at index 5
  (balance 1058, position 0). The simulator of strategy.py raises NameError at index 4,
  where its BUY branch reads \<^verbatim>\<open>quantity_to_buy_buy\<close>.
\<close>

theorem scenario_buy_then_sell:
  "(\<exists>logs. simulator_run_simulation Missing (Prices scenario) ''simple''
             (Some (buy_sell (PFloat 0.02) (PFloat 0.03))) 1000 = Some logs \<and>
          length logs = 6 \<and>
          side (logs ! 4) = BUY \<and> balance (logs ! 4) = 908 \<and> position (logs ! 4) = 1 \<and>
          side (logs ! 5) = SELL \<and> balance (logs ! 5) = 1058 \<and> position (logs ! 5) = 0) \<and>
   strategy_run_simulation Missing (Prices scenario) ''simple''
     (Some [''buy'' \<mapsto> PFloat 0.02, ''sell'' \<mapsto> PFloat 0.03, ''window_size'' \<mapsto> PInt 5]) 1000
     = Inl NameError"
  using scenario_simulator scenario_strategy by blast

text \<open>
  C6. On an empty price series, with no parameters from the caller and no configuration
  file, both simulators return \<^verbatim>\<open>None\<close>. On the six rows of the scenario, with the same
  defaults and the default balance of 10000, the simulator of simulator.py returns a log
  whose timestamps are 0 to 5, one row each; the simulator of strategy.py logs nothing: it
  raises NameError at index 4, where a BUY is proposed and its BUY branch reads
  \<^verbatim>\<open>quantity_to_buy_buy\<close>.
\<close>

theorem scenario_one_record_per_timestamp:
  "simulator_run_simulation Missing (Prices []) ''simple'' None 10000 = None \<and>
   strategy_run_simulation Missing (Prices []) ''simple'' None 10000 = Inr None \<and>
   (\<exists>logs. simulator_run_simulation Missing (Prices scenario) ''simple'' None 10000 = Some logs \<and>
          map timestamp logs = [0, 1, 2, 3, 4, 5]) \<and>
   strategy_run_simulation Missing (Prices scenario) ''simple'' None 10000 = Inl NameError"
  using empty_defaults scenario_simulator_defaults scenario_strategy_defaults by blast

lemma simulator_step_unknown:
  assumes "n \<noteq> ''simple''"
  shows "\<exists>d. simulator_step n t bal 0 r = Inr d \<and> untouched n bal d"
proof -
  obtain ts p ma where r: "r = ((ts, p), ma)" by (metis surj_pair)
  show ?thesis
    using assms by (simp add: r simulator_step_def log_row_def untouched_def split: option.splits)
qed

lemma simulator_loop_unknown:
  assumes "n \<noteq> ''simple''"
  shows "\<exists>ds. simulator_loop n t bal 0 rs = Inr ds \<and> length ds = length rs \<and>
           (\<forall>d \<in> set ds. untouched n bal d)"
proof (induction rs)
  case Nil
  then show ?case by simp
next
  case (Cons r rs)
  obtain d where d: "simulator_step n t bal 0 r = Inr d" and u: "untouched n bal d"
    using simulator_step_unknown [OF assms] by blast
  then have "balance d = bal" "position d = 0"
    by (simp_all add: untouched_def)
  with Cons.IH d u show ?case by auto
qed

lemma strategy_step_unknown:
  assumes "n \<noteq> ''simple''"
  shows "\<exists>d. strategy_step n t w bal 0 r = Inr d \<and> untouched n bal d \<and>
           reason d = NotImplemented n"
proof -
  obtain ts p ma where r: "r = ((ts, p), ma)" by (metis surj_pair)
  show ?thesis
    using assms by (simp add: r strategy_step_def log_row_def untouched_def split: option.splits)
qed

lemma strategy_loop_unknown:
  assumes "n \<noteq> ''simple''"
  shows "\<exists>ds. strategy_loop n t w bal 0 rs = Inr ds \<and> length ds = length rs \<and>
           (\<forall>d \<in> set ds. untouched n bal d \<and> reason d = NotImplemented n)"
proof (induction rs)
  case Nil
  then show ?case by simp
next
  case (Cons r rs)
  obtain d where d: "strategy_step n t w bal 0 r = Inr d" and u: "untouched n bal d"
    and rs: "reason d = NotImplemented n"
    using strategy_step_unknown [OF assms] by blast
  then have "balance d = bal" "position d = 0"
    by (simp_all add: untouched_def)
  with Cons.IH d u rs show ?case by auto
qed

text \<open>
  An unknown strategy with no parameters from the caller and no configuration file: the
  defaults hold nothing for it, and both simulators return \<^verbatim>\<open>None\<close> for one row of
  prices.
\<close>

theorem unknown_strategy_counterexample:
  "simulator_run_simulation Missing (Prices [(0, 100)]) ''unknown_x'' None 1000 = None \<and>
   strategy_run_simulation Missing (Prices [(0, 100)]) ''unknown_x'' None 1000 = Inr None"
  by (simp add: simulator_run_simulation_def simulator_thresholds_def
      load_config_for_simulator_def strategy_run_simulation_def load_strategy_config_for_sim_def
      section_of_def DEFAULT_THRESHOLDS_def default_strategy_defaults_def)

text \<open>
  C7, for a strategy name other than \<^verbatim>\<open>"simple"\<close> and a non-empty price series. When the
  parameter dictionary in force is not empty (and, in strategy.py, its window is a
  non-negative integer), the simulator returns a log with one row per timestamp, every row
  a HOLD of quantity 0 with the initial balance, position 0 and the initial portfolio
  value; in strategy.py the reason of every row names the strategy as not implemented.
  When the dictionary in force is empty the simulator returns \<^verbatim>\<open>None\<close>.
\<close>

theorem unknown_strategy_holds:
  assumes "n \<noteq> ''simple''" and "rows \<noteq> []"
  shows "(simulator_thresholds file n thr \<noteq> Map.empty \<longrightarrow>
            (\<exists>logs. simulator_run_simulation file (Prices rows) n thr init = Some logs \<and>
                    length logs = length rows \<and> (\<forall>d \<in> set logs. untouched n init d))) \<and>
         (simulator_thresholds file n thr = Map.empty \<longrightarrow>
            simulator_run_simulation file (Prices rows) n thr init = None) \<and>
         (load_strategy_config_for_sim file n thr \<noteq> Map.empty \<and>
          dict_get (load_strategy_config_for_sim file n thr) ''window_size''
            (PInt DEFAULT_WINDOW_SIZE) = PInt w \<and> 0 \<le> w \<longrightarrow>
            (\<exists>logs. strategy_run_simulation file (Prices rows) n thr init = Inr (Some logs) \<and>
                    length logs = length rows \<and>
                    (\<forall>d \<in> set logs. untouched n init d \<and> reason d = NotImplemented n))) \<and>
         (load_strategy_config_for_sim file n thr = Map.empty \<longrightarrow>
            strategy_run_simulation file (Prices rows) n thr init = Inr None)"
proof (intro conjI impI)
  assume ne: "simulator_thresholds file n thr \<noteq> Map.empty"
  let ?rs = "zip (sort_key fst rows) (rolling_mean float64 5 (map snd (sort_key fst rows)))"
  obtain ds where ds: "simulator_loop n (simulator_thresholds file n thr) init 0 ?rs = Inr ds"
    and len: "length ds = length ?rs" and u: "\<forall>d \<in> set ds. untouched n init d"
    using simulator_loop_unknown [OF assms(1)] by blast
  have "length ds = length rows" using len by simp
  moreover from this assms(2) have "ds \<noteq> []" by auto
  ultimately show "\<exists>logs. simulator_run_simulation file (Prices rows) n thr init = Some logs \<and>
      length logs = length rows \<and> (\<forall>d \<in> set logs. untouched n init d)"
    using ds ne u by (simp add: simulator_run_simulation_def Let_def)
next
  assume "simulator_thresholds file n thr = Map.empty"
  then show "simulator_run_simulation file (Prices rows) n thr init = None"
    by (simp add: simulator_run_simulation_def Let_def)
next
  assume a: "load_strategy_config_for_sim file n thr \<noteq> Map.empty \<and>
          dict_get (load_strategy_config_for_sim file n thr) ''window_size''
            (PInt DEFAULT_WINDOW_SIZE) = PInt w \<and> 0 \<le> w"
  let ?t = "load_strategy_config_for_sim file n thr"
  let ?rs = "zip (sort_key fst rows) (rolling_mean float64 (nat w) (map snd (sort_key fst rows)))"
  obtain ds where ds: "strategy_loop n ?t (PInt w) init 0 ?rs = Inr ds"
    and len: "length ds = length ?rs"
    and u: "\<forall>d \<in> set ds. untouched n init d \<and> reason d = NotImplemented n"
    using strategy_loop_unknown [OF assms(1)] by blast
  have "length ds = length rows" using len by simp
  moreover from this assms(2) have "ds \<noteq> []" by auto
  ultimately show "\<exists>logs. strategy_run_simulation file (Prices rows) n thr init = Inr (Some logs) \<and>
      length logs = length rows \<and>
      (\<forall>d \<in> set logs. untouched n init d \<and> reason d = NotImplemented n)"
    using ds a u by (simp add: strategy_run_simulation_def rolling_def Let_def)
next
  assume "load_strategy_config_for_sim file n thr = Map.empty"
  then show "strategy_run_simulation file (Prices rows) n thr init = Inr None"
    by (simp add: strategy_run_simulation_def Let_def)
qed

theorem unknown_strategy_holds_witness:
  "(\<exists>logs. simulator_run_simulation Missing (Prices [(0, 100)]) ''unknown_x''
            (Some [''buy'' \<mapsto> PFloat 0.02]) 1000 = Some logs \<and>
          length logs = 1 \<and> untouched ''unknown_x'' 1000 (logs ! 0)) \<and>
   (\<exists>logs. strategy_run_simulation Missing (Prices [(0, 100)]) ''unknown_x''
            (Some [''buy'' \<mapsto> PFloat 0.02]) 1000 = Inr (Some logs) \<and>
          length logs = 1 \<and> untouched ''unknown_x'' 1000 (logs ! 0) \<and>
          reason (logs ! 0) = NotImplemented ''unknown_x'') \<and>
   simulator_run_simulation Missing (Prices [(0, 100)]) ''unknown_x'' None 1000 = None \<and>
   strategy_run_simulation Missing (Prices [(0, 100)]) ''unknown_x'' None 1000 = Inr None"
proof -
  let ?rows = "[(0 :: int, 100 :: real)]"
  let ?t = "[''buy'' \<mapsto> PFloat 0.02]"
  have n: "''unknown_x'' \<noteq> ''simple''" by simp
  have r: "?rows \<noteq> []" by simp
  note main = unknown_strategy_holds [OF n r]
  have s1: "simulator_thresholds Missing ''unknown_x'' (Some ?t) \<noteq> Map.empty"
    by (simp add: simulator_thresholds_def)
  obtain logs where a: "simulator_run_simulation Missing (Prices ?rows) ''unknown_x'' (Some ?t) 1000
      = Some logs" "length logs = length ?rows" "\<forall>d \<in> set logs. untouched ''unknown_x'' 1000 d"
    using main [THEN conjunct1, rule_format, OF s1] by blast
  then have a': "length logs = 1" "untouched ''unknown_x'' 1000 (logs ! 0)"
    by simp_all
  have s2: "load_strategy_config_for_sim Missing ''unknown_x'' (Some ?t) \<noteq> Map.empty \<and>
      dict_get (load_strategy_config_for_sim Missing ''unknown_x'' (Some ?t)) ''window_size''
        (PInt DEFAULT_WINDOW_SIZE) = PInt 5 \<and> (0 :: int) \<le> 5"
    by (simp add: load_strategy_config_for_sim_def dict_get_def DEFAULT_WINDOW_SIZE_def)
  obtain logs' where b: "strategy_run_simulation Missing (Prices ?rows) ''unknown_x'' (Some ?t) 1000
      = Inr (Some logs')" "length logs' = length ?rows"
      "\<forall>d \<in> set logs'. untouched ''unknown_x'' 1000 d \<and> reason d = NotImplemented ''unknown_x''"
    using main [THEN conjunct2, THEN conjunct2, THEN conjunct1, rule_format, OF s2] by blast
  then have b': "length logs' = 1" "untouched ''unknown_x'' 1000 (logs' ! 0)"
      "reason (logs' ! 0) = NotImplemented ''unknown_x''"
    by simp_all
  have s3: "simulator_thresholds Missing ''unknown_x'' None = Map.empty"
    by (simp add: simulator_thresholds_def load_config_for_simulator_def section_of_def
        DEFAULT_THRESHOLDS_def)
  have c: "simulator_run_simulation Missing (Prices ?rows) ''unknown_x'' None 1000 = None"
    using main [THEN conjunct2, THEN conjunct1, rule_format, OF s3] .
  have s4: "load_strategy_config_for_sim Missing ''unknown_x'' None = Map.empty"
    by (simp add: load_strategy_config_for_sim_def section_of_def default_strategy_defaults_def)
  have d: "strategy_run_simulation Missing (Prices ?rows) ''unknown_x'' None 1000 = Inr None"
    using main [THEN conjunct2, THEN conjunct2, THEN conjunct2, rule_format, OF s4] .
  from a(1) a' b(1) b' c d show ?thesis by blast
qed

end
